theory Spec2Isabelle
  imports Main
begin

section \<open>The uniter's modes (worker/uniter/modes.go)\<close>

text \<open>
  A Mode is a function from the Uniter to the next Mode and an error. The modes read the
  persisted operation state, call the Uniter's collaborators (the operation executor, the
  leadership tracker, the event filter, the unit, the relations) and wait in \<open>select\<close>
  statements. The collaborators are not part of modes.go: they are parameters of the model
  (the record \<open>Env\<close>), and every call a mode makes is appended to the log \<open>calls\<close> of the
  Uniter, so that "which operations were run, and in which order" is a property of the log.
\<close>

subsection \<open>Data\<close>

text \<open>\<open>*charm.URL\<close>: a pointer, \<open>None\<close> is nil. The modes only pass it on.\<close>

type_synonym charm_url = "string option"

text \<open>\<open>operation.Kind\<close> and \<open>operation.Step\<close> are string types with named constants; any
  other string is a value of the type as well.\<close>

datatype Kind = Install | RunHook | RunAction | Upgrade | Continue | OtherKind string

datatype Step = Queued | Pending | Done | OtherStep string

text \<open>\<open>hooks.Kind\<close> is a string; the constants used by the modes.\<close>

type_synonym hooks_Kind = string

definition hooks_Stop :: hooks_Kind where "hooks_Stop = ''stop''"
definition hooks_Start :: hooks_Kind where "hooks_Start = ''start''"
definition hooks_ConfigChanged :: hooks_Kind where "hooks_ConfigChanged = ''config-changed''"
definition hooks_MeterStatusChanged :: hooks_Kind where
  "hooks_MeterStatusChanged = ''meter-status-changed''"
definition hooks_CollectMetrics :: hooks_Kind where "hooks_CollectMetrics = ''collect-metrics''"
definition leader_settings_changed :: hooks_Kind where
  "leader_settings_changed = ''leader-settings-changed''"

text \<open>\<open>hooks.Kind.IsRelation\<close>: the four relation hook kinds.\<close>

definition IsRelation :: "hooks_Kind \<Rightarrow> bool" where
  "IsRelation k \<longleftrightarrow> k \<in> {''relation-joined'', ''relation-changed'',
                          ''relation-departed'', ''relation-broken''}"

text \<open>\<open>hook.Info\<close>, with the fields the modes read.\<close>

record Info =
  Kind_hook :: hooks_Kind
  RelationId :: int
  RemoteUnit :: string

text \<open>\<open>operation.State\<close>. \<open>Hook\<close>, \<open>ActionId\<close> and \<open>CharmURL\<close> are pointers.\<close>

record State =
  Kind :: Kind
  Step :: Step
  Hook :: "Info option"
  ActionId :: "string option"
  CharmURL :: charm_url
  Leader :: bool
  Started :: bool
  CollectMetricsTime :: int

text \<open>\<open>params.ResolvedMode\<close> is a string.\<close>

type_synonym ResolvedMode = string

definition ResolvedRetryHooks :: ResolvedMode where "ResolvedRetryHooks = ''retry-hooks''"
definition ResolvedNoHooks :: ResolvedMode where "ResolvedNoHooks = ''no-hooks''"

datatype Status = StatusInstalling | StatusStopping | StatusActive | StatusError

text \<open>The values stored in the status data, a \<open>map[string]interface{}\<close>: kept as the
  list of the entries in the order the mode stores them (the keys are distinct).\<close>

datatype status_value = IntValue int | StringValue string

type_synonym status_data = "(string \<times> status_value) list"

text \<open>The creators handed to \<open>runOperation\<close>. \<open>NilCreator\<close> is the zero value of a
  variable declared \<open>var creator creator\<close> and never assigned.\<close>

datatype creator =
    NilCreator
  | NewInstallOp charm_url
  | NewUpgradeOp charm_url
  | NewRevertUpgradeOp charm_url
  | NewResolvedUpgradeOp charm_url
  | NewRunHookOp Info
  | NewSimpleRunHookOp hooks_Kind
  | NewRetryHookOp Info
  | NewSkipHookOp Info
  | NewActionOp string
  | NewAcceptLeadershipOp
  | NewResignLeadershipOp
  | NewUpdateRelationsOp "int list"
  | NewUpdateStorageOp "string list"

text \<open>Errors. \<open>ErrDying\<close> is \<open>tomb.ErrDying\<close>, \<open>ErrTerminateAgent\<close> is
  \<open>worker.ErrTerminateAgent\<close>, \<open>ErrCannotAcceptLeadership\<close> and \<open>ErrHookFailed\<close> are the
  operation package's; \<open>Failure\<close> is any other error value of a collaborator. The three
  \<open>errors.Errorf\<close> sites of modes.go carry their argument. \<open>Trace\<close> and \<open>Annotatef\<close>
  wrap an error and keep its cause.\<close>

datatype error =
    ErrDying
  | ErrTerminateAgent
  | ErrCannotAcceptLeadership
  | ErrHookFailed
  | Failure string
  | UnknownOperationKind Kind
  | InsaneUniterState State
  | UnknownResolvedMode ResolvedMode
  | Trace error
  | Annotatef error string

fun Cause :: "error \<Rightarrow> error" where
  "Cause (Trace e) = Cause e"
| "Cause (Annotatef e name) = Cause e"
| "Cause e = e"

text \<open>The modes, as values: \<open>ModeInstalling\<close>, \<open>ModeUpgrading\<close> and \<open>ModeConflicted\<close>
  are closures over a charm URL.\<close>

datatype Mode =
    Mode_Continue
  | Mode_Installing charm_url
  | Mode_Upgrading charm_url
  | Mode_Terminating
  | Mode_Abide
  | Mode_HookError
  | Mode_Conflicted charm_url

text \<open>The calls a mode makes on the Uniter's collaborators.\<close>

datatype call =
    RunOperation creator
  | InitializeMetricsCollector
  | ClaimLeader
  | WaitLeader
  | WaitMinion
  | SetAgentStatus Status string status_data
  | DeployerFix
  | WantLeaderSettingsEvents bool
  | WantUpgradeEvent bool
  | WantResolvedEvent
  | RelationsStartHooks
  | RelationsStopHooks
  | RelationsSetDying
  | RelationsName int
  | UnitWatch
  | WatcherStop
  | UnitRefresh
  | UnitHasSubordinates
  | UnitEnsureDead
  | UnitDestroyAllSubordinates

text \<open>The Uniter, as far as the modes read it: the operation state
  (\<open>u.operationState()\<close>), the two flags \<open>u.ranConfigChanged\<close> and
  \<open>u.ranLeaderSettingsChanged\<close>, and the log of the calls made so far.\<close>

record Uniter =
  operationState :: State
  ranConfigChanged :: bool
  ranLeaderSettingsChanged :: bool
  calls :: "call list"

text \<open>What a \<open>select\<close> can receive: one constructor per channel, with the value
  received.\<close>

datatype event =
    TombDying
  | UnitDying
  | UpgradeEvent charm_url
  | RelationsEvent "int list"
  | ActionEvent string
  | StorageEvent "string list"
  | ConfigEvent
  | MeterStatusEvent
  | CollectMetricsSignal
  | RelationsHook Info
  | StorageHook Info
  | LeaderElected
  | LeaderDeposed
  | LeaderSettingsEvent
  | ResolvedEvent ResolvedMode
  | WatcherChange bool

text \<open>One round of waiting: the events that are ready when a \<open>select\<close> is reached, and the
  choice of the Go runtime, which picks one of the ready cases of the \<open>select\<close> at random.
  A mode is run on the list of the rounds to come; when the list is used up, or no case of
  the \<open>select\<close> is ready in the round, the \<open>select\<close> waits forever.\<close>

type_synonym round = "event list \<times> nat"

definition select :: "(event \<Rightarrow> bool) \<Rightarrow> round \<Rightarrow> event option" where
  "select waited r =
     (case filter waited (fst r) of
        [] \<Rightarrow> None
      | e # es \<Rightarrow> Some ((e # es) ! (snd r mod length (e # es))))"

text \<open>The collaborators. Each is a function of the Uniter at the time of the call (which
  holds the log, so an answer may change from one call to the next). \<open>execute\<close> is the
  operation executor behind \<open>runOperation\<close>: it returns the error and the Uniter
  with the state it has persisted. \<open>unitDying\<close> says whether the channel
  \<open>u.f.UnitDying()\<close> is ready at the poll of ModeAbide; \<open>relationsGetInfo\<close> is
  \<open>len(u.relations.GetInfo())\<close>; \<open>watcherEnsureErr\<close> is \<open>watcher.EnsureErr(w)\<close>.\<close>

record Env =
  LeaderElection :: bool
  execute :: "creator \<Rightarrow> Uniter \<Rightarrow> error option \<times> Uniter"
  initializeMetricsCollector :: "Uniter \<Rightarrow> error option"
  claimLeader :: "Uniter \<Rightarrow> bool"
  setAgentStatus :: "Status \<Rightarrow> string \<Rightarrow> status_data \<Rightarrow> Uniter \<Rightarrow> error option"
  deployerFix :: "Uniter \<Rightarrow> error option"
  relationsStopHooks :: "Uniter \<Rightarrow> error option"
  relationsSetDying :: "Uniter \<Rightarrow> error option"
  relationsGetInfo :: "Uniter \<Rightarrow> nat"
  relationsName :: "int \<Rightarrow> Uniter \<Rightarrow> error + string"
  unitDying :: "Uniter \<Rightarrow> bool"
  unitWatch :: "Uniter \<Rightarrow> error option"
  watcherEnsureErr :: "Uniter \<Rightarrow> error"
  unitRefresh :: "Uniter \<Rightarrow> error option"
  unitHasSubordinates :: "Uniter \<Rightarrow> error + bool"
  unitEnsureDead :: "Uniter \<Rightarrow> error option"
  unitDestroyAllSubordinates :: "Uniter \<Rightarrow> error option"

text \<open>What running a mode comes to: it returns the pair \<open>(next, err)\<close>, leaving the Uniter and
  the rounds not yet used; or it waits forever in a \<open>select\<close>; or it panics on a nil
  pointer.\<close>

datatype outcome =
    Returns "Mode option" "error option" Uniter "round list"
  | Blocks Uniter
  | Panics Uniter

subsection \<open>Calls\<close>

definition logCall :: "call \<Rightarrow> Uniter \<Rightarrow> Uniter" where
  "logCall c u = u\<lparr>calls := calls u @ [c]\<rparr>"

text \<open>\<open>u.runOperation(creator)\<close>: the executor's answer, and the call in the log.\<close>

definition runOperation :: "Env \<Rightarrow> creator \<Rightarrow> Uniter \<Rightarrow> error option \<times> Uniter" where
  "runOperation env c u =
     (case execute env c u of (err, u') \<Rightarrow> (err, u'\<lparr>calls := calls u @ [RunOperation c]\<rparr>))"

text \<open>The operations run so far, in order.\<close>

definition operations :: "Uniter \<Rightarrow> creator list" where
  "operations u = concat (map (\<lambda>c. case c of RunOperation x \<Rightarrow> [x] | _ \<Rightarrow> []) (calls u))"

text \<open>\<open>modeContext\<close>: the deferred function annotates the error with the mode's name;
  \<open>errors.Annotatef\<close> of nil is nil.\<close>

definition modeContext :: "string \<Rightarrow> outcome \<Rightarrow> outcome" where
  "modeContext name out =
     (case out of
        Returns next err u rs \<Rightarrow> Returns next (map_option (\<lambda>e. Annotatef e name) err) u rs
      | Blocks u \<Rightarrow> Blocks u
      | Panics u \<Rightarrow> Panics u)"

text \<open>\<open>continueAfter\<close>: run the operation, return ModeContinue or the traced error.\<close>

definition continueAfter :: "Env \<Rightarrow> creator \<Rightarrow> round list \<Rightarrow> Uniter \<Rightarrow> outcome" where
  "continueAfter env c rs u =
     (case runOperation env c u of
        (Some err, u') \<Rightarrow> Returns None (Some (Trace err)) u' rs
      | (None, u') \<Rightarrow> Returns (Some Mode_Continue) None u' rs)"

subsection \<open>ModeContinue\<close>

text \<open>\<open>ModeInstalling(curl)\<close> and \<open>ModeUpgrading(curl)\<close> build the closure; the first
  returns it with a nil error.\<close>

definition ModeInstalling :: "charm_url \<Rightarrow> Mode option \<times> error option" where
  "ModeInstalling curl = (Some (Mode_Installing curl), None)"

definition ModeUpgrading :: "charm_url \<Rightarrow> Mode" where
  "ModeUpgrading curl = Mode_Upgrading curl"

text \<open>Lines 48 to 75: the leadership check. \<open>Inl\<close> is a return of ModeContinue, \<open>Inr\<close>
  the Uniter with which the function goes on.\<close>

definition checkLeadership ::
  "Env \<Rightarrow> State \<Rightarrow> round list \<Rightarrow> Uniter \<Rightarrow> outcome + Uniter" where
  "checkLeadership env opState rs u =
     (if LeaderElection env then
        (let isLeader = claimLeader env u; u1 = logCall ClaimLeader u in
         if isLeader = Leader opState then Inr u1
         else
           (let creator = (if isLeader then NewAcceptLeadershipOp else NewResignLeadershipOp) in
            case runOperation env creator u1 of
              (None, u2) \<Rightarrow> Inl (Returns (Some Mode_Continue) None u2 rs)
            | (Some err, u2) \<Rightarrow>
                if Cause err \<noteq> ErrCannotAcceptLeadership
                then Inl (Returns None (Some (Trace err)) u2 rs)
                else Inr u2))
      else Inr u)"

text \<open>Lines 77 to 106: the switch on the kind and the step. Reading \<open>opState.Hook.Kind\<close>
  or \<open>*opState.Hook\<close> with a nil \<open>Hook\<close> panics.\<close>

definition chooseNext :: "Env \<Rightarrow> State \<Rightarrow> round list \<Rightarrow> Uniter \<Rightarrow> outcome" where
  "chooseNext env opState rs u =
     (case Kind opState of
        RunAction \<Rightarrow>
          (case Hook opState of
             None \<Rightarrow> Panics u
           | Some h \<Rightarrow> continueAfter env (NewSkipHookOp h) rs u)
      | RunHook \<Rightarrow>
          (case Step opState of
             Pending \<Rightarrow>
               (case Hook opState of
                  None \<Rightarrow> Panics u
                | Some h \<Rightarrow> Returns (Some Mode_HookError) None u rs)
           | Queued \<Rightarrow>
               (case Hook opState of
                  None \<Rightarrow> Panics u
                | Some h \<Rightarrow> continueAfter env (NewRunHookOp h) rs u)
           | Done \<Rightarrow>
               (case Hook opState of
                  None \<Rightarrow> Panics u
                | Some h \<Rightarrow> continueAfter env (NewSkipHookOp h) rs u)
           | OtherStep s \<Rightarrow> continueAfter env NilCreator rs u)
      | Continue \<Rightarrow>
          (case Hook opState of
             None \<Rightarrow> Panics u
           | Some h \<Rightarrow>
               if Kind_hook h = hooks_Stop
               then Returns (Some Mode_Terminating) None u rs
               else Returns (Some Mode_Abide) None u rs)
      | _ \<Rightarrow> Returns None (Some (UnknownOperationKind (Kind opState))) u rs)"

definition ModeContinue :: "Env \<Rightarrow> round list \<Rightarrow> Uniter \<Rightarrow> outcome" where
  "ModeContinue env rs u =
     modeContext ''ModeContinue''
       (let opState = operationState u in
        if Kind opState = Install then
          (case ModeInstalling (CharmURL opState) of (next, err) \<Rightarrow> Returns next err u rs)
        else if Kind opState = Upgrade then
          Returns (Some (ModeUpgrading (CharmURL opState))) None u rs
        else
          (case initializeMetricsCollector env u of
             Some err \<Rightarrow> Returns None (Some (Trace err)) (logCall InitializeMetricsCollector u) rs
           | None \<Rightarrow>
               (case checkLeadership env opState rs (logCall InitializeMetricsCollector u) of
                  Inl out \<Rightarrow> out
                | Inr u1 \<Rightarrow> chooseNext env opState rs u1)))"

text \<open>Invoking ModeContinue \<open>n\<close> times in a row, as long as it returns ModeContinue's own
  result: the outcomes of re-invoking it on the Uniter it left.\<close>

fun reinvoke :: "nat \<Rightarrow> Env \<Rightarrow> round list \<Rightarrow> Uniter \<Rightarrow> outcome" where
  "reinvoke 0 env rs u = ModeContinue env rs u"
| "reinvoke (Suc n) env rs u =
     (case ModeContinue env rs u of
        Returns next err u' rs' \<Rightarrow> reinvoke n env rs' u'
      | out \<Rightarrow> out)"

subsection \<open>Calls with an error result\<close>

text \<open>A call that returns an error or nil: the collaborator's answer, and the call in the
  log.\<close>

definition perform :: "(Uniter \<Rightarrow> error option) \<Rightarrow> call \<Rightarrow> Uniter \<Rightarrow> error option \<times> Uniter" where
  "perform f c u = (f u, logCall c u)"

subsection \<open>ModeInstalling, ModeUpgrading\<close>




subsection \<open>ModeTerminating\<close>

text \<open>The cases of the \<open>select\<close> of ModeTerminating.\<close>

fun terminatingWaits :: "event \<Rightarrow> bool" where
  "terminatingWaits TombDying = True"
| "terminatingWaits (ActionEvent a) = True"
| "terminatingWaits (WatcherChange ok) = True"
| "terminatingWaits e = False"

text \<open>The case \<open>w.Changes()\<close>, lines 160 to 177. \<open>Inl\<close> is a return, \<open>Inr\<close> the
  \<open>continue\<close>.\<close>

definition unitChanged :: "Env \<Rightarrow> bool \<Rightarrow> round list \<Rightarrow> Uniter \<Rightarrow> outcome + Uniter" where
  "unitChanged env ok rs u =
     (if \<not> ok then Inl (Returns None (Some (watcherEnsureErr env u)) u rs)
      else
        (case perform (unitRefresh env) UnitRefresh u of
           (Some err, u1) \<Rightarrow> Inl (Returns None (Some (Trace err)) u1 rs)
         | (None, u1) \<Rightarrow>
             (case unitHasSubordinates env u1 of
                Inl err \<Rightarrow> Inl (Returns None (Some (Trace err)) (logCall UnitHasSubordinates u1) rs)
              | Inr hasSubs \<Rightarrow>
                  if hasSubs then Inr (logCall UnitHasSubordinates u1)
                  else
                    (case perform (unitEnsureDead env) UnitEnsureDead (logCall UnitHasSubordinates u1) of
                       (Some err, u2) \<Rightarrow> Inl (Returns None (Some (Trace err)) u2 rs)
                     | (None, u2) \<Rightarrow> Inl (Returns None (Some ErrTerminateAgent) u2 rs)))))"

text \<open>The loop of ModeTerminating, lines 151 to 179.\<close>

fun terminatingLoop :: "Env \<Rightarrow> round list \<Rightarrow> Uniter \<Rightarrow> outcome" where
  "terminatingLoop env [] u = Blocks u"
| "terminatingLoop env (r # rs) u =
     (case select terminatingWaits r of
        None \<Rightarrow> Blocks u
      | Some TombDying \<Rightarrow> Returns None (Some ErrDying) u rs
      | Some (ActionEvent actionId) \<Rightarrow>
          (case runOperation env (NewActionOp actionId) u of
             (Some err, u1) \<Rightarrow> Returns None (Some (Trace err)) u1 rs
           | (None, u1) \<Rightarrow> terminatingLoop env rs u1)
      | Some (WatcherChange ok) \<Rightarrow>
          (case unitChanged env ok rs u of
             Inl out \<Rightarrow> out
           | Inr u1 \<Rightarrow> terminatingLoop env rs u1)
      | Some e \<Rightarrow> Blocks u)"

text \<open>A deferred call that only has an effect: it runs when the function returns or
  panics, not while it waits.\<close>

definition deferCall :: "call \<Rightarrow> outcome \<Rightarrow> outcome" where
  "deferCall c out =
     (case out of
        Returns next err u rs \<Rightarrow> Returns next err (logCall c u) rs
      | Blocks u \<Rightarrow> Blocks u
      | Panics u \<Rightarrow> Panics (logCall c u))"

definition ModeTerminating :: "Env \<Rightarrow> round list \<Rightarrow> Uniter \<Rightarrow> outcome" where
  "ModeTerminating env rs u =
     modeContext ''ModeTerminating''
       (case perform (setAgentStatus env StatusStopping [] []) (SetAgentStatus StatusStopping [] []) u of
          (Some err, u1) \<Rightarrow> Returns None (Some (Trace err)) u1 rs
        | (None, u1) \<Rightarrow>
            (case perform (unitWatch env) UnitWatch u1 of
               (Some err, u2) \<Rightarrow> Returns None (Some (Trace err)) u2 rs
             | (None, u2) \<Rightarrow> deferCall WatcherStop (terminatingLoop env rs u2)))"

subsection \<open>ModeAbide\<close>

text \<open>The cases of the \<open>select\<close> of the dying loop, and the creator for each case but
  \<open>u.tomb.Dying()\<close>.\<close>

fun dyingWaits :: "event \<Rightarrow> bool" where
  "dyingWaits TombDying = True"
| "dyingWaits (ActionEvent a) = True"
| "dyingWaits ConfigEvent = True"
| "dyingWaits LeaderSettingsEvent = True"
| "dyingWaits (RelationsHook h) = True"
| "dyingWaits e = False"

fun dyingCreator :: "event \<Rightarrow> creator" where
  "dyingCreator (ActionEvent actionId) = NewActionOp actionId"
| "dyingCreator ConfigEvent = NewSimpleRunHookOp hooks_ConfigChanged"
| "dyingCreator LeaderSettingsEvent = NewSimpleRunHookOp leader_settings_changed"
| "dyingCreator (RelationsHook hookInfo) = NewRunHookOp hookInfo"
| "dyingCreator e = NilCreator"

text \<open>The loop of modeAbideDyingLoop, lines 329 to 350.\<close>

fun dyingLoop :: "Env \<Rightarrow> round list \<Rightarrow> Uniter \<Rightarrow> outcome" where
  "dyingLoop env [] u =
     (if relationsGetInfo env u = 0
      then continueAfter env (NewSimpleRunHookOp hooks_Stop) [] u
      else Blocks u)"
| "dyingLoop env (r # rs) u =
     (if relationsGetInfo env u = 0
      then continueAfter env (NewSimpleRunHookOp hooks_Stop) (r # rs) u
      else
        (case select dyingWaits r of
           None \<Rightarrow> Blocks u
         | Some TombDying \<Rightarrow> Returns None (Some ErrDying) u rs
         | Some e \<Rightarrow>
             (case runOperation env (dyingCreator e) u of
                (Some err, u1) \<Rightarrow> Returns None (Some (Trace err)) u1 rs
              | (None, u1) \<Rightarrow> dyingLoop env rs u1)))"

definition modeAbideDyingLoop :: "Env \<Rightarrow> round list \<Rightarrow> Uniter \<Rightarrow> outcome" where
  "modeAbideDyingLoop env rs u =
     (case perform (unitRefresh env) UnitRefresh u of
        (Some err, u1) \<Rightarrow> Returns None (Some (Trace err)) u1 rs
      | (None, u1) \<Rightarrow>
          (case perform (unitDestroyAllSubordinates env) UnitDestroyAllSubordinates u1 of
             (Some err, u2) \<Rightarrow> Returns None (Some (Trace err)) u2 rs
           | (None, u2) \<Rightarrow>
               (case perform (relationsSetDying env) RelationsSetDying u2 of
                  (Some err, u3) \<Rightarrow> Returns None (Some (Trace err)) u3 rs
                | (None, u3) \<Rightarrow>
                    if LeaderElection env \<and> Leader (operationState u3) then
                      (case runOperation env NewResignLeadershipOp u3 of
                         (Some err, u4) \<Rightarrow> Returns None (Some (Trace err)) u4 rs
                       | (None, u4) \<Rightarrow> dyingLoop env rs u4)
                    else dyingLoop env rs u3)))"

text \<open>The alive loop keeps two channels, \<open>leaderElected\<close> and \<open>leaderDeposed\<close>, nil until
  the head of the loop asks the tracker for one of them (lines 251 to 259); a nil channel is
  never ready. The booleans say which are not nil.\<close>

definition aliveArm :: "Env \<Rightarrow> bool \<times> bool \<Rightarrow> Uniter \<Rightarrow> (bool \<times> bool) \<times> Uniter" where
  "aliveArm env chans u =
     (if LeaderElection env \<and> \<not> fst chans \<and> \<not> snd chans then
        (if Leader (operationState u) then ((False, True), logCall WaitMinion u)
         else ((True, False), logCall WaitLeader u))
      else (chans, u))"

fun aliveWaits :: "bool \<times> bool \<Rightarrow> event \<Rightarrow> bool" where
  "aliveWaits chans LeaderElected = fst chans"
| "aliveWaits chans LeaderDeposed = snd chans"
| "aliveWaits chans (ResolvedEvent rm) = False"
| "aliveWaits chans (WatcherChange ok) = False"
| "aliveWaits chans e = True"

fun aliveCreator :: "event \<Rightarrow> creator" where
  "aliveCreator (RelationsEvent ids) = NewUpdateRelationsOp ids"
| "aliveCreator (ActionEvent actionId) = NewActionOp actionId"
| "aliveCreator (StorageEvent tags) = NewUpdateStorageOp tags"
| "aliveCreator ConfigEvent = NewSimpleRunHookOp hooks_ConfigChanged"
| "aliveCreator MeterStatusEvent = NewSimpleRunHookOp hooks_MeterStatusChanged"
| "aliveCreator CollectMetricsSignal = NewSimpleRunHookOp hooks_CollectMetrics"
| "aliveCreator (RelationsHook hookInfo) = NewRunHookOp hookInfo"
| "aliveCreator (StorageHook hookInfo) = NewRunHookOp hookInfo"
| "aliveCreator LeaderElected = NewAcceptLeadershipOp"
| "aliveCreator LeaderDeposed = NewResignLeadershipOp"
| "aliveCreator LeaderSettingsEvent = NewSimpleRunHookOp leader_settings_changed"
| "aliveCreator e = NilCreator"

text \<open>The channels after the case of the event: the two leadership cases set their channel
  to nil.\<close>

fun aliveDisarm :: "event \<Rightarrow> bool \<times> bool \<Rightarrow> bool \<times> bool" where
  "aliveDisarm LeaderElected chans = (False, snd chans)"
| "aliveDisarm LeaderDeposed chans = (fst chans, False)"
| "aliveDisarm e chans = chans"

text \<open>modeAbideAliveLoop, lines 248 to 302.\<close>

fun aliveLoop :: "Env \<Rightarrow> bool \<times> bool \<Rightarrow> round list \<Rightarrow> Uniter \<Rightarrow> outcome" where
  "aliveLoop env chans [] u = Blocks (snd (aliveArm env chans u))"
| "aliveLoop env chans (r # rs) u =
     (case aliveArm env chans u of
        (chans1, u1) \<Rightarrow>
          (case select (aliveWaits chans1) r of
             None \<Rightarrow> Blocks u1
           | Some TombDying \<Rightarrow> Returns None (Some ErrDying) u1 rs
           | Some UnitDying \<Rightarrow> modeAbideDyingLoop env rs u1
           | Some (UpgradeEvent curl) \<Rightarrow> Returns (Some (ModeUpgrading curl)) None u1 rs
           | Some e \<Rightarrow>
               (case runOperation env (aliveCreator e) u1 of
                  (Some err, u2) \<Rightarrow> Returns None (Some (Trace err)) u2 rs
                | (None, u2) \<Rightarrow> aliveLoop env (aliveDisarm e chans1) rs u2)))"

definition modeAbideAliveLoop :: "Env \<Rightarrow> round list \<Rightarrow> Uniter \<Rightarrow> outcome" where
  "modeAbideAliveLoop env rs u = aliveLoop env (False, False) rs u"

text \<open>The deferred function of ModeAbide, lines 228 to 236: stop the relation hooks; its
  error becomes the result's error when there is none yet, and is only logged otherwise.\<close>

definition deferStopHooks :: "Env \<Rightarrow> outcome \<Rightarrow> outcome" where
  "deferStopHooks env out =
     (case out of
        Returns next err u rs \<Rightarrow>
          (case perform (relationsStopHooks env) RelationsStopHooks u of
             (Some e, u1) \<Rightarrow> Returns next (if err = None then Some e else err) u1 rs
           | (None, u1) \<Rightarrow> Returns next err u1 rs)
      | Blocks u \<Rightarrow> Blocks u
      | Panics u \<Rightarrow> Panics (logCall RelationsStopHooks u))"

text \<open>Lines 198 to 215: the leader settings. \<open>Inl\<close> is a return.\<close>

definition abideLeaderSettings ::
  "Env \<Rightarrow> State \<Rightarrow> round list \<Rightarrow> Uniter \<Rightarrow> outcome + Uniter" where
  "abideLeaderSettings env opState rs u =
     (if LeaderElection env then
        (let u1 = logCall (WantLeaderSettingsEvents (\<not> Leader opState)) u in
         if \<not> Leader opState \<and> \<not> ranLeaderSettingsChanged u1 then
           (case runOperation env (NewSimpleRunHookOp leader_settings_changed) u1 of
              (Some err, u2) \<Rightarrow> Inl (Returns None (Some (Trace err)) u2 rs)
            | (None, u2) \<Rightarrow> Inr u2)
         else Inr u1)
      else Inr (logCall (WantLeaderSettingsEvents False) u))"

text \<open>Lines 217 to 243.\<close>

definition abideSteady :: "Env \<Rightarrow> State \<Rightarrow> round list \<Rightarrow> Uniter \<Rightarrow> outcome" where
  "abideSteady env opState rs u =
     (if \<not> ranConfigChanged u then continueAfter env (NewSimpleRunHookOp hooks_ConfigChanged) rs u
      else if \<not> Started opState then continueAfter env (NewSimpleRunHookOp hooks_Start) rs u
      else
        (case perform (setAgentStatus env StatusActive [] []) (SetAgentStatus StatusActive [] []) u of
           (Some err, u1) \<Rightarrow> Returns None (Some (Trace err)) u1 rs
         | (None, u1) \<Rightarrow>
             (let u2 = logCall RelationsStartHooks (logCall (WantUpgradeEvent False) u1) in
              deferStopHooks env
                (if unitDying env u2 then modeAbideDyingLoop env rs u2
                 else modeAbideAliveLoop env rs u2))))"

definition ModeAbide :: "Env \<Rightarrow> round list \<Rightarrow> Uniter \<Rightarrow> outcome" where
  "ModeAbide env rs u =
     modeContext ''ModeAbide''
       (let opState = operationState u in
        if Kind opState \<noteq> Continue then Returns None (Some (InsaneUniterState opState)) u rs
        else
          (case perform (deployerFix env) DeployerFix u of
             (Some err, u1) \<Rightarrow> Returns None (Some (Trace err)) u1 rs
           | (None, u1) \<Rightarrow>
               (case abideLeaderSettings env opState rs u1 of
                  Inl out \<Rightarrow> out
                | Inr u2 \<Rightarrow> abideSteady env opState rs u2)))"

subsection \<open>ModeHookError\<close>

text \<open>\<open>fmt.Sprintf("hook failed: %q", hookName)\<close>, for a name that \<open>%q\<close> leaves as it is
  between the quotes.\<close>

definition hookFailedMessage :: "string \<Rightarrow> string" where
  "hookFailedMessage hookName = ''hook failed: '' @ [CHR 0x22] @ hookName @ [CHR 0x22]"

fun hookErrorWaits :: "bool \<Rightarrow> event \<Rightarrow> bool" where
  "hookErrorWaits leaderDeposed TombDying = True"
| "hookErrorWaits leaderDeposed (UpgradeEvent curl) = True"
| "hookErrorWaits leaderDeposed (ResolvedEvent rm) = True"
| "hookErrorWaits leaderDeposed LeaderDeposed = leaderDeposed"
| "hookErrorWaits leaderDeposed e = False"

text \<open>The case \<open>u.f.ResolvedEvents()\<close>, lines 403 to 419. \<open>Inl\<close> is a return, \<open>Inr\<close>
  the \<open>continue\<close>.\<close>

definition resolved :: "Env \<Rightarrow> Info \<Rightarrow> ResolvedMode \<Rightarrow> round list \<Rightarrow> Uniter \<Rightarrow> outcome + Uniter" where
  "resolved env hookInfo rm rs u =
     (if rm \<noteq> ResolvedRetryHooks \<and> rm \<noteq> ResolvedNoHooks
      then Inl (Returns None (Some (UnknownResolvedMode rm)) u rs)
      else
        (let creator = (if rm = ResolvedRetryHooks then NewRetryHookOp hookInfo
                        else NewSkipHookOp hookInfo) in
         case runOperation env creator u of
           (Some err, u1) \<Rightarrow>
             if Cause err = ErrHookFailed then Inr u1
             else Inl (Returns None (Some (Trace err)) u1 rs)
         | (None, u1) \<Rightarrow> Inl (Returns (Some Mode_Continue) None u1 rs)))"

text \<open>The loop of ModeHookError, lines 391 to 428.\<close>

fun hookErrorLoop ::
  "Env \<Rightarrow> Info \<Rightarrow> string \<Rightarrow> status_data \<Rightarrow> bool \<Rightarrow> round list \<Rightarrow> Uniter \<Rightarrow> outcome" where
  "hookErrorLoop env hookInfo statusMessage statusData leaderDeposed [] u =
     (case perform (setAgentStatus env StatusError statusMessage statusData)
             (SetAgentStatus StatusError statusMessage statusData) u of
        (Some err, u1) \<Rightarrow> Returns None (Some (Trace err)) u1 []
      | (None, u1) \<Rightarrow> Blocks u1)"
| "hookErrorLoop env hookInfo statusMessage statusData leaderDeposed (r # rs) u =
     (case perform (setAgentStatus env StatusError statusMessage statusData)
             (SetAgentStatus StatusError statusMessage statusData) u of
        (Some err, u1) \<Rightarrow> Returns None (Some (Trace err)) u1 (r # rs)
      | (None, u1) \<Rightarrow>
          (case select (hookErrorWaits leaderDeposed) r of
             None \<Rightarrow> Blocks u1
           | Some TombDying \<Rightarrow> Returns None (Some ErrDying) u1 rs
           | Some (UpgradeEvent curl) \<Rightarrow> Returns (Some (ModeUpgrading curl)) None u1 rs
           | Some (ResolvedEvent rm) \<Rightarrow>
               (case resolved env hookInfo rm rs u1 of
                  Inl out \<Rightarrow> out
                | Inr u2 \<Rightarrow>
                    hookErrorLoop env hookInfo statusMessage statusData leaderDeposed rs u2)
           | Some LeaderDeposed \<Rightarrow>
               (case runOperation env NewResignLeadershipOp u1 of
                  (Some err, u2) \<Rightarrow> Returns None (Some (Trace err)) u2 rs
                | (None, u2) \<Rightarrow>
                    hookErrorLoop env hookInfo statusMessage statusData False rs u2)
           | Some e \<Rightarrow> Blocks u1))"

text \<open>Lines 382 to 390, and the loop.\<close>

definition hookErrorWatch ::
  "Env \<Rightarrow> State \<Rightarrow> Info \<Rightarrow> string \<Rightarrow> status_data \<Rightarrow> round list \<Rightarrow> Uniter \<Rightarrow> outcome" where
  "hookErrorWatch env opState hookInfo hookName statusData rs u =
     (let u1 = logCall (WantUpgradeEvent True) (logCall WantResolvedEvent u) in
      if LeaderElection env \<and> Leader opState
      then hookErrorLoop env hookInfo (hookFailedMessage hookName)
             (statusData @ [(''hook'', StringValue hookName)]) True rs (logCall WaitMinion u1)
      else hookErrorLoop env hookInfo (hookFailedMessage hookName)
             (statusData @ [(''hook'', StringValue hookName)]) False rs u1)"

definition ModeHookError :: "Env \<Rightarrow> round list \<Rightarrow> Uniter \<Rightarrow> outcome" where
  "ModeHookError env rs u =
     modeContext ''ModeHookError''
       (let opState = operationState u in
        if Kind opState \<noteq> RunHook \<or> Step opState \<noteq> Pending
        then Returns None (Some (InsaneUniterState (operationState u))) u rs
        else
          (case Hook opState of
             None \<Rightarrow> Panics u
           | Some hookInfo \<Rightarrow>
               if IsRelation (Kind_hook hookInfo) then
                 (let statusData =
                        [(''relation-id'', IntValue (RelationId hookInfo))] @
                        (if RemoteUnit hookInfo \<noteq> []
                         then [(''remote-unit'', StringValue (RemoteUnit hookInfo))] else [])
                  in
                  case relationsName env (RelationId hookInfo) u of
                    Inl err \<Rightarrow>
                      Returns None (Some (Trace err))
                        (logCall (RelationsName (RelationId hookInfo)) u) rs
                  | Inr relationName \<Rightarrow>
                      hookErrorWatch env opState hookInfo
                        (relationName @ ''-'' @ Kind_hook hookInfo) statusData rs
                        (logCall (RelationsName (RelationId hookInfo)) u))
               else hookErrorWatch env opState hookInfo (Kind_hook hookInfo) [] rs u))"

subsection \<open>ModeConflicted\<close>

fun conflictedWaits :: "event \<Rightarrow> bool" where
  "conflictedWaits TombDying = True"
| "conflictedWaits (UpgradeEvent curl) = True"
| "conflictedWaits (ResolvedEvent rm) = True"
| "conflictedWaits e = False"

text \<open>The \<open>select\<close> of ModeConflicted, lines 444 to 452.\<close>

fun conflictedSelect :: "charm_url \<Rightarrow> Env \<Rightarrow> round list \<Rightarrow> Uniter \<Rightarrow> outcome" where
  "conflictedSelect curl env [] u = Blocks u"
| "conflictedSelect curl env (r # rs) u =
     (case select conflictedWaits r of
        None \<Rightarrow> Blocks u
      | Some TombDying \<Rightarrow> Returns None (Some ErrDying) u rs
      | Some (UpgradeEvent curl') \<Rightarrow> continueAfter env (NewRevertUpgradeOp curl') rs u
      | Some (ResolvedEvent rm) \<Rightarrow> continueAfter env (NewResolvedUpgradeOp curl) rs u
      | Some e \<Rightarrow> Blocks u)"

definition conflicted :: "charm_url \<Rightarrow> Env \<Rightarrow> round list \<Rightarrow> Uniter \<Rightarrow> outcome" where
  "conflicted curl env rs u =
     modeContext ''ModeConflicted''
       (case perform (setAgentStatus env StatusError ''upgrade failed'' [])
               (SetAgentStatus StatusError ''upgrade failed'' []) u of
          (Some err, u1) \<Rightarrow> Returns None (Some (Trace err)) u1 rs
        | (None, u1) \<Rightarrow>
            conflictedSelect curl env rs
              (logCall (WantUpgradeEvent True) (logCall WantResolvedEvent u1)))"

subsection \<open>Running a mode\<close>


subsection \<open>Reading an outcome\<close>

text \<open>The Uniter a mode leaves, and the calls it has added to the log of the Uniter it
  was given.\<close>

fun final :: "outcome \<Rightarrow> Uniter" where
  "final (Returns next err u rs) = u"
| "final (Blocks u) = u"
| "final (Panics u) = u"

definition newCalls :: "Uniter \<Rightarrow> outcome \<Rightarrow> call list" where
  "newCalls u out = drop (length (calls u)) (calls (final out))"

fun isLeadershipOp :: "call \<Rightarrow> bool" where
  "isLeadershipOp (RunOperation NewAcceptLeadershipOp) = True"
| "isLeadershipOp (RunOperation NewResignLeadershipOp) = True"
| "isLeadershipOp c = False"

text \<open>The calls that enact or watch leadership: the two leadership operations, the three
  requests to the tracker, and asking the filter for leader-settings events.\<close>

fun leadershipCall :: "call \<Rightarrow> bool" where
  "leadershipCall (RunOperation NewAcceptLeadershipOp) = True"
| "leadershipCall (RunOperation NewResignLeadershipOp) = True"
| "leadershipCall ClaimLeader = True"
| "leadershipCall WaitLeader = True"
| "leadershipCall WaitMinion = True"
| "leadershipCall (WantLeaderSettingsEvents wanted) = wanted"
| "leadershipCall c = False"


text \<open>A call that has nothing to do with leadership; the leader-settings-changed hook
  counts as such only when a leader-settings event has been offered.\<close>

definition quiet :: "bool \<Rightarrow> call \<Rightarrow> bool" where
  "quiet offered c \<longleftrightarrow>
     \<not> leadershipCall c \<and>
     (c = RunOperation (NewSimpleRunHookOp leader_settings_changed) \<longrightarrow> offered)"

text \<open>The outcome keeps the log of the Uniter and adds calls that all satisfy \<open>P\<close>.\<close>

definition adds :: "(call \<Rightarrow> bool) \<Rightarrow> Uniter \<Rightarrow> outcome \<Rightarrow> bool" where
  "adds P u out \<longleftrightarrow> (\<exists>cs. calls (final out) = calls u @ cs \<and> (\<forall>c \<in> set cs. P c))"

text \<open>Modelled from the spec: the Operation Executor is not part of modes.go. The state
  it persists when a run-hook or a skip-hook operation succeeds has the kind Continue.\<close>

definition commitsContinue :: "Env \<Rightarrow> bool" where
  "commitsContinue env \<longleftrightarrow>
     (\<forall>h u u'. (execute env (NewRunHookOp h) u = (None, u') \<longrightarrow>
                   Kind (operationState u') = Continue) \<and>
               (execute env (NewSkipHookOp h) u = (None, u') \<longrightarrow>
                   Kind (operationState u') = Continue))"

subsection \<open>A sample Uniter\<close>

text \<open>A sample executor that succeeds: a leadership operation persists the new value of
  \<open>Leader\<close>, an operation on a hook persists the kind Continue with that hook, any other
  operation leaves the state as it is. Sample collaborators that all succeed: the unit has
  no subordinates, there is no relation, the unit is alive, the tracker does not claim
  leadership.\<close>

fun persists :: "creator \<Rightarrow> State \<Rightarrow> State" where
  "persists NewAcceptLeadershipOp st = st\<lparr>Leader := True\<rparr>"
| "persists NewResignLeadershipOp st = st\<lparr>Leader := False\<rparr>"
| "persists (NewRunHookOp h) st = st\<lparr>Kind := Continue, Step := Pending, Hook := Some h\<rparr>"
| "persists (NewRetryHookOp h) st = st\<lparr>Kind := Continue, Step := Pending, Hook := Some h\<rparr>"
| "persists (NewSkipHookOp h) st = st\<lparr>Kind := Continue, Step := Pending, Hook := Some h\<rparr>"
| "persists (NewSimpleRunHookOp k) st =
     st\<lparr>Kind := Continue, Step := Pending,
        Hook := Some \<lparr>Kind_hook = k, RelationId = 0, RemoteUnit = []\<rparr>\<rparr>"
| "persists c st = st"

definition succeeds :: "creator \<Rightarrow> Uniter \<Rightarrow> error option \<times> Uniter" where
  "succeeds c u = (None, u\<lparr>operationState := persists c (operationState u)\<rparr>)"

definition sampleEnv :: Env where
  "sampleEnv =
     \<lparr>LeaderElection = True,
      execute = succeeds,
      initializeMetricsCollector = (\<lambda>u. None),
      claimLeader = (\<lambda>u. False),
      setAgentStatus = (\<lambda>status message data u. None),
      deployerFix = (\<lambda>u. None),
      relationsStopHooks = (\<lambda>u. None),
      relationsSetDying = (\<lambda>u. None),
      relationsGetInfo = (\<lambda>u. 0),
      relationsName = (\<lambda>id u. Inr ''db''),
      unitDying = (\<lambda>u. False),
      unitWatch = (\<lambda>u. None),
      watcherEnsureErr = (\<lambda>u. Failure ''watcher stopped''),
      unitRefresh = (\<lambda>u. None),
      unitHasSubordinates = (\<lambda>u. Inr False),
      unitEnsureDead = (\<lambda>u. None),
      unitDestroyAllSubordinates = (\<lambda>u. None)\<rparr>"

text \<open>A tracker that claims leadership, and a metrics collector that cannot be
  initialised.\<close>

definition claimed :: "Uniter \<Rightarrow> bool" where
  "claimed u = True"

definition noMetrics :: "Uniter \<Rightarrow> error option" where
  "noMetrics u = Some (Failure ''no metrics'')"

definition sampleHook :: Info where
  "sampleHook = \<lparr>Kind_hook = ''config-changed'', RelationId = 0, RemoteUnit = []\<rparr>"

definition sampleState :: State where
  "sampleState =
     \<lparr>Kind = Continue, Step = Done, Hook = Some sampleHook, ActionId = None,
      CharmURL = None, Leader = False, Started = True, CollectMetricsTime = 0\<rparr>"

definition sampleUniter :: Uniter where
  "sampleUniter =
     \<lparr>operationState = sampleState, ranConfigChanged = True,
      ranLeaderSettingsChanged = True, calls = []\<rparr>"

text \<open>A sample Uniter whose install hook has failed.\<close>

definition installFailed :: Uniter where
  "installFailed =
     sampleUniter\<lparr>operationState :=
       sampleState\<lparr>Kind := RunHook, Step := Pending,
                    Hook := Some (sampleHook\<lparr>Kind_hook := ''install''\<rparr>)\<rparr>\<rparr>"

text \<open>A sample environment with one relation left, until the hook that breaks it has
  run.\<close>

definition lastRelation :: Info where
  "lastRelation = \<lparr>Kind_hook = ''relation-broken'', RelationId = 1, RemoteUnit = []\<rparr>"

definition dyingEnv :: Env where
  "dyingEnv =
     sampleEnv\<lparr>relationsGetInfo :=
       (\<lambda>u. if RunOperation (NewRunHookOp lastRelation) \<in> set (calls u) then 0 else 1)\<rparr>"

section \<open>Properties\<close>

subsection \<open>Basic facts\<close>

lemma modeContext_Returns:
  "modeContext name (Returns next err u rs) =
     Returns next (map_option (\<lambda>e. Annotatef e name) err) u rs"
  by (simp add: modeContext_def)

lemma ModeContinue_Install:
  "Kind (operationState u) = Install \<Longrightarrow>
   ModeContinue env rs u =
     Returns (Some (Mode_Installing (CharmURL (operationState u)))) None u rs"
  by (simp add: ModeContinue_def ModeInstalling_def modeContext_def)

lemma ModeContinue_Upgrade:
  "Kind (operationState u) = Upgrade \<Longrightarrow>
   ModeContinue env rs u =
     Returns (Some (Mode_Upgrading (CharmURL (operationState u)))) None u rs"
  by (simp add: ModeContinue_def ModeUpgrading_def modeContext_def)

lemma reinvoke_fixed:
  "ModeContinue env rs u = Returns next err u rs \<Longrightarrow>
   reinvoke n env rs u = Returns next err u rs"
  by (induction n) simp_all

lemmas sample_defs =
  sampleEnv_def sampleUniter_def sampleState_def sampleHook_def succeeds_def
  claimed_def noMetrics_def

lemmas step_defs =
  continueAfter_def runOperation_def logCall_def perform_def modeContext_def select_def

lemma ModeContinue_dispatch:
  assumes "Kind (operationState u) \<noteq> Install" "Kind (operationState u) \<noteq> Upgrade"
    and "initializeMetricsCollector env u = None"
    and "checkLeadership env (operationState u) rs (logCall InitializeMetricsCollector u) = Inr u1"
  shows "ModeContinue env rs u =
           modeContext ''ModeContinue'' (chooseNext env (operationState u) rs u1)"
  using assms by (simp add: ModeContinue_def)

text \<open>When the leadership check lets ModeContinue go on: the flag is off; or the tracker's
  claim is the persisted \<open>Leader\<close>; or the leadership operation has failed with
  \<open>ErrCannotAcceptLeadership\<close>.\<close>

lemma checkLeadership_goes_on:
  "checkLeadership env st rs u = Inr u1 \<longleftrightarrow>
     (\<not> LeaderElection env \<and> u1 = u) \<or>
     (LeaderElection env \<and> claimLeader env u = Leader st \<and> u1 = logCall ClaimLeader u) \<or>
     (LeaderElection env \<and> claimLeader env u \<noteq> Leader st \<and>
      (\<exists>err u2.
          execute env (if claimLeader env u then NewAcceptLeadershipOp
                       else NewResignLeadershipOp) (logCall ClaimLeader u) = (Some err, u2) \<and>
          Cause err = ErrCannotAcceptLeadership \<and>
          u1 = u2\<lparr>calls := calls u @ [ClaimLeader,
                 RunOperation (if claimLeader env u then NewAcceptLeadershipOp
                               else NewResignLeadershipOp)]\<rparr>))"
  by (auto simp: checkLeadership_def runOperation_def logCall_def Let_def
      split: prod.splits option.splits)

lemma continueAfter_eq:
  "continueAfter env c rs u =
     (case execute env c u of
        (None, u') \<Rightarrow>
          Returns (Some Mode_Continue) None (u'\<lparr>calls := calls u @ [RunOperation c]\<rparr>) rs
      | (Some err, u') \<Rightarrow>
          Returns None (Some (Trace err)) (u'\<lparr>calls := calls u @ [RunOperation c]\<rparr>) rs)"
  by (simp add: continueAfter_def runOperation_def split: prod.splits option.splits)

lemma final_modeContext: "final (modeContext name out) = final out"
  by (cases out) (simp_all add: modeContext_def)

lemma calls_continueAfter:
  "calls (final (continueAfter env c rs u)) = calls u @ [RunOperation c]"
  by (simp add: continueAfter_def runOperation_def split: prod.splits option.splits)

lemma calls_chooseNext:
  "\<exists>cs. calls (final (chooseNext env st rs u)) = calls u @ cs \<and> filter isLeadershipOp cs = []"
  by (auto simp: chooseNext_def calls_continueAfter
      split: Kind.splits Step.splits option.splits)

subsection \<open>Resuming an install or an upgrade\<close>

text \<open>
  C1. For a persisted state of kind Install, ModeContinue returns the Installing mode for
  the persisted charm URL, and for a state of kind Upgrade the Upgrading mode for the
  persisted charm URL. It returns the Uniter it was given: no call is made, no operation
  is run, the state and the rounds are untouched. Hence re-invoking ModeContinue any number
  of times gives the same mode for the same charm URL.
\<close>

theorem ModeContinue_resumes_deployment:
  assumes "Kind (operationState u) = Install \<or> Kind (operationState u) = Upgrade"
  shows "ModeContinue env rs u =
           Returns (Some (if Kind (operationState u) = Install
                          then Mode_Installing (CharmURL (operationState u))
                          else Mode_Upgrading (CharmURL (operationState u)))) None u rs
         \<and> reinvoke n env rs u = ModeContinue env rs u"
proof -
  let ?m = "if Kind (operationState u) = Install
            then Mode_Installing (CharmURL (operationState u))
            else Mode_Upgrading (CharmURL (operationState u))"
  have first: "ModeContinue env rs u = Returns (Some ?m) None u rs"
    using assms ModeContinue_Install [of u env rs] ModeContinue_Upgrade [of u env rs] by auto
  from reinvoke_fixed [OF first] first show ?thesis by simp
qed

theorem ModeContinue_resumes_deployment_witness:
  "Kind (operationState (sampleUniter\<lparr>operationState :=
       sampleState\<lparr>Kind := Upgrade, CharmURL := Some ''cs:foo-4''\<rparr>\<rparr>)) = Upgrade
   \<and> reinvoke 3 sampleEnv []
       (sampleUniter\<lparr>operationState := sampleState\<lparr>Kind := Upgrade, CharmURL := Some ''cs:foo-4''\<rparr>\<rparr>)
     = Returns (Some (Mode_Upgrading (Some ''cs:foo-4''))) None
         (sampleUniter\<lparr>operationState := sampleState\<lparr>Kind := Upgrade, CharmURL := Some ''cs:foo-4''\<rparr>\<rparr>) []"
  using ModeContinue_resumes_deployment
    [of "sampleUniter\<lparr>operationState := sampleState\<lparr>Kind := Upgrade, CharmURL := Some ''cs:foo-4''\<rparr>\<rparr>"
        sampleEnv "[]" 3]
  by simp

subsection \<open>A hook that awaits resolution\<close>

text \<open>
  C2, as the code has it. Whenever the persisted state is of kind RunHook with the step
  Pending, ModeAbide returns the fatal error "insane uniter state" and calls no
  collaborator. ModeContinue, when the hook is recorded, the metrics collector has been
  initialised and the leadership check has nothing to enact (the flag is off, or the
  tracker's claim is the persisted \<open>Leader\<close>), returns the HookError mode without running
  any operation and leaves the state as it is.
\<close>

theorem pending_hook_Abide_rejects_Continue_selects_HookError:
  assumes "Kind (operationState u) = RunHook" and "Step (operationState u) = Pending"
  shows "ModeAbide env rs u =
           Returns None (Some (Annotatef (InsaneUniterState (operationState u)) ''ModeAbide''))
             u rs
       \<and> (Hook (operationState u) \<noteq> None \<longrightarrow>
          initializeMetricsCollector env u = None \<longrightarrow>
          (LeaderElection env \<longrightarrow>
             claimLeader env (logCall InitializeMetricsCollector u) = Leader (operationState u)) \<longrightarrow>
            ModeContinue env rs u =
              Returns (Some Mode_HookError) None
                (if LeaderElection env
                 then logCall ClaimLeader (logCall InitializeMetricsCollector u)
                 else logCall InitializeMetricsCollector u) rs
            \<and> operations (final (ModeContinue env rs u)) = operations u
            \<and> operationState (final (ModeContinue env rs u)) = operationState u)"
proof -
  have abide: "ModeAbide env rs u =
      Returns None (Some (Annotatef (InsaneUniterState (operationState u)) ''ModeAbide'')) u rs"
    using assms by (simp add: ModeAbide_def modeContext_def)
  have continue: "ModeContinue env rs u =
      Returns (Some Mode_HookError) None
        (if LeaderElection env
         then logCall ClaimLeader (logCall InitializeMetricsCollector u)
         else logCall InitializeMetricsCollector u) rs"
    if "Hook (operationState u) \<noteq> None" "initializeMetricsCollector env u = None"
       "LeaderElection env \<longrightarrow>
          claimLeader env (logCall InitializeMetricsCollector u) = Leader (operationState u)"
  proof -
    have "checkLeadership env (operationState u) rs (logCall InitializeMetricsCollector u) =
        Inr (if LeaderElection env
             then logCall ClaimLeader (logCall InitializeMetricsCollector u)
             else logCall InitializeMetricsCollector u)"
      using that(3) by (simp add: checkLeadership_goes_on)
    then show ?thesis
      using assms that(1,2)
      by (auto simp: ModeContinue_dispatch chooseNext_def modeContext_Returns)
  qed
  show ?thesis
    using abide continue by (auto simp: operations_def logCall_def)
qed

theorem pending_hook_Abide_rejects_Continue_selects_HookError_witness:
  "Kind (operationState (sampleUniter\<lparr>operationState :=
       sampleState\<lparr>Kind := RunHook, Step := Pending\<rparr>\<rparr>)) = RunHook
   \<and> ModeAbide sampleEnv []
       (sampleUniter\<lparr>operationState := sampleState\<lparr>Kind := RunHook, Step := Pending\<rparr>\<rparr>)
     = Returns None
         (Some (Annotatef (InsaneUniterState (sampleState\<lparr>Kind := RunHook, Step := Pending\<rparr>))
            ''ModeAbide''))
         (sampleUniter\<lparr>operationState := sampleState\<lparr>Kind := RunHook, Step := Pending\<rparr>\<rparr>) []
   \<and> ModeContinue sampleEnv []
       (sampleUniter\<lparr>operationState := sampleState\<lparr>Kind := RunHook, Step := Pending\<rparr>\<rparr>)
     = Returns (Some Mode_HookError) None
         (sampleUniter\<lparr>operationState := sampleState\<lparr>Kind := RunHook, Step := Pending\<rparr>,
            calls := [InitializeMetricsCollector, ClaimLeader]\<rparr>) []"
  using pending_hook_Abide_rejects_Continue_selects_HookError
    [of "sampleUniter\<lparr>operationState := sampleState\<lparr>Kind := RunHook, Step := Pending\<rparr>\<rparr>"
        sampleEnv "[]"]
  by (simp add: sample_defs logCall_def)

text \<open>
  C2 as stated fails. ModeTerminating, on a state of kind RunHook with the step Pending,
  goes on to mark the unit dead and returns the signal to terminate the agent; and
  ModeContinue, when the tracker no longer claims the leadership the state records, runs a
  resign-leadership operation and returns ModeContinue.
\<close>

theorem pending_hook_containment_counterexample:
  "ModeTerminating sampleEnv [([WatcherChange True], 0)]
     (sampleUniter\<lparr>operationState := sampleState\<lparr>Kind := RunHook, Step := Pending\<rparr>\<rparr>)
   = Returns None (Some (Annotatef ErrTerminateAgent ''ModeTerminating''))
       (sampleUniter\<lparr>operationState := sampleState\<lparr>Kind := RunHook, Step := Pending\<rparr>,
          calls := [SetAgentStatus StatusStopping [] [], UnitWatch, UnitRefresh,
                    UnitHasSubordinates, UnitEnsureDead, WatcherStop]\<rparr>) []
   \<and> ModeContinue sampleEnv []
       (sampleUniter\<lparr>operationState :=
          sampleState\<lparr>Kind := RunHook, Step := Pending, Leader := True\<rparr>\<rparr>)
     = Returns (Some Mode_Continue) None
         (sampleUniter\<lparr>operationState :=
            sampleState\<lparr>Kind := RunHook, Step := Pending, Leader := False\<rparr>,
            calls := [InitializeMetricsCollector, ClaimLeader,
                      RunOperation NewResignLeadershipOp]\<rparr>) []"
  by (simp add: sample_defs step_defs ModeContinue_def checkLeadership_def
      ModeTerminating_def unitChanged_def deferCall_def)

subsection \<open>The switch on the kind and the step\<close>

text \<open>The switch on the step has no default: for a step that is none of the three, the
  creator is still nil when it is handed to \<open>continueAfter\<close>.\<close>

lemma ModeContinue_unknown_step:
  assumes "Kind (operationState u) = RunHook" and "Step (operationState u) = OtherStep s"
    and "initializeMetricsCollector env u = None"
    and "checkLeadership env (operationState u) rs (logCall InitializeMetricsCollector u) = Inr u1"
  shows "ModeContinue env rs u =
           modeContext ''ModeContinue'' (continueAfter env NilCreator rs u1)"
  using assms by (simp add: ModeContinue_dispatch chooseNext_def)

text \<open>
  C3, as the code has it. Once the metrics collector is initialised and the leadership
  check lets the pass go on with the Uniter \<open>u1\<close>, ModeContinue on a state of kind RunHook
  with its hook recorded dispatches by the step. Pending: it returns the HookError mode.
  Queued: it runs exactly one run-hook operation for the persisted hook, and Done: exactly
  one skip-hook operation; when the operation succeeds it returns ModeContinue with the
  state the executor has persisted (of kind Continue for an executor that keeps the
  contract \<open>commitsContinue\<close>), and when it fails it returns the traced error. A state
  whose kind is none of the five known kinds yields the fatal error "unknown operation
  kind". Nothing is said of the kind RunHook with a step that is none of the three.
\<close>

theorem ModeContinue_dispatches_RunHook_by_step:
  assumes "initializeMetricsCollector env u = None"
    and "checkLeadership env (operationState u) rs (logCall InitializeMetricsCollector u) = Inr u1"
  shows
    "(Kind (operationState u) = RunHook \<and> Step (operationState u) = Pending \<and>
      Hook (operationState u) = Some h \<longrightarrow>
        ModeContinue env rs u = Returns (Some Mode_HookError) None u1 rs)
   \<and> (Kind (operationState u) = RunHook \<and> Hook (operationState u) = Some h \<and>
      (Step (operationState u) = Queued \<and> c = NewRunHookOp h \<or>
       Step (operationState u) = Done \<and> c = NewSkipHookOp h) \<longrightarrow>
        (\<forall>u2. execute env c u1 = (None, u2) \<longrightarrow>
           ModeContinue env rs u =
             Returns (Some Mode_Continue) None (u2\<lparr>calls := calls u1 @ [RunOperation c]\<rparr>) rs
           \<and> (commitsContinue env \<longrightarrow> Kind (operationState u2) = Continue))
      \<and> (\<forall>err u2. execute env c u1 = (Some err, u2) \<longrightarrow>
           ModeContinue env rs u =
             Returns None (Some (Annotatef (Trace err) ''ModeContinue''))
               (u2\<lparr>calls := calls u1 @ [RunOperation c]\<rparr>) rs))
   \<and> (Kind (operationState u) = OtherKind k \<longrightarrow>
        ModeContinue env rs u =
          Returns None (Some (Annotatef (UnknownOperationKind (OtherKind k)) ''ModeContinue''))
            u1 rs)"
proof -
  have pending: "ModeContinue env rs u = Returns (Some Mode_HookError) None u1 rs"
    if "Kind (operationState u) = RunHook" "Step (operationState u) = Pending"
       "Hook (operationState u) = Some h"
    using that assms by (simp add: ModeContinue_dispatch chooseNext_def modeContext_Returns)
  have run: "ModeContinue env rs u = modeContext ''ModeContinue'' (continueAfter env c rs u1)"
    if "Kind (operationState u) = RunHook" "Hook (operationState u) = Some h"
       "Step (operationState u) = Queued \<and> c = NewRunHookOp h \<or>
        Step (operationState u) = Done \<and> c = NewSkipHookOp h"
    using that assms by (auto simp: ModeContinue_dispatch chooseNext_def)
  have commit: "Kind (operationState u2) = Continue"
    if "commitsContinue env" "execute env c u1 = (None, u2)"
       "c = NewRunHookOp h \<or> c = NewSkipHookOp h" for u2
    using that unfolding commitsContinue_def by blast
  have other: "ModeContinue env rs u =
      Returns None (Some (Annotatef (UnknownOperationKind (OtherKind k)) ''ModeContinue'')) u1 rs"
    if "Kind (operationState u) = OtherKind k"
    using that assms by (simp add: ModeContinue_dispatch chooseNext_def modeContext_Returns)
  show ?thesis
    using pending run commit other
    by (auto simp: continueAfter_eq modeContext_Returns)
qed

theorem ModeContinue_dispatches_RunHook_by_step_witness:
  "initializeMetricsCollector sampleEnv
     (sampleUniter\<lparr>operationState := sampleState\<lparr>Kind := RunHook, Step := Queued\<rparr>\<rparr>) = None
   \<and> checkLeadership sampleEnv (sampleState\<lparr>Kind := RunHook, Step := Queued\<rparr>) []
       (logCall InitializeMetricsCollector
          (sampleUniter\<lparr>operationState := sampleState\<lparr>Kind := RunHook, Step := Queued\<rparr>\<rparr>))
     = Inr (sampleUniter\<lparr>operationState := sampleState\<lparr>Kind := RunHook, Step := Queued\<rparr>,
              calls := [InitializeMetricsCollector, ClaimLeader]\<rparr>)
   \<and> commitsContinue sampleEnv
   \<and> ModeContinue sampleEnv []
       (sampleUniter\<lparr>operationState := sampleState\<lparr>Kind := RunHook, Step := Queued\<rparr>\<rparr>)
     = Returns (Some Mode_Continue) None
         (sampleUniter\<lparr>operationState := sampleState\<lparr>Kind := Continue, Step := Pending\<rparr>,
            calls := [InitializeMetricsCollector, ClaimLeader,
                      RunOperation (NewRunHookOp sampleHook)]\<rparr>) []"
proof -
  let ?u = "sampleUniter\<lparr>operationState := sampleState\<lparr>Kind := RunHook, Step := Queued\<rparr>\<rparr>"
  let ?u1 = "sampleUniter\<lparr>operationState := sampleState\<lparr>Kind := RunHook, Step := Queued\<rparr>,
               calls := [InitializeMetricsCollector, ClaimLeader]\<rparr>"
  have init: "initializeMetricsCollector sampleEnv ?u = None"
    by (simp add: sample_defs)
  have check: "checkLeadership sampleEnv (operationState ?u) []
      (logCall InitializeMetricsCollector ?u) = Inr ?u1"
    by (simp add: sample_defs checkLeadership_def logCall_def)
  have contract: "commitsContinue sampleEnv"
    by (auto simp: commitsContinue_def sample_defs)
  have exec: "execute sampleEnv (NewRunHookOp sampleHook) ?u1 =
      (None, ?u1\<lparr>operationState := sampleState\<lparr>Kind := Continue, Step := Pending\<rparr>\<rparr>)"
    by (simp add: sample_defs)
  have hook: "Hook (operationState ?u) = Some sampleHook"
    by (simp add: sample_defs)
  from ModeContinue_dispatches_RunHook_by_step
    [OF init check, of sampleHook "NewRunHookOp sampleHook"] exec hook
  have "ModeContinue sampleEnv [] ?u =
      Returns (Some Mode_Continue) None
        (?u1\<lparr>operationState := sampleState\<lparr>Kind := Continue, Step := Pending\<rparr>,
              calls := calls ?u1 @ [RunOperation (NewRunHookOp sampleHook)]\<rparr>) []"
    by simp
  with init check contract show ?thesis by simp
qed

text \<open>
  C3 as stated fails for a state of kind RunHook with a queued hook. When the tracker no
  longer claims the leadership the state records, ModeContinue runs a resign-leadership
  operation and returns ModeContinue: no run-hook operation is run and the state keeps the
  kind RunHook. When the metrics collector cannot be initialised, ModeContinue returns that
  error and runs nothing.
\<close>

theorem RunHook_dispatch_counterexample:
  "ModeContinue sampleEnv []
     (sampleUniter\<lparr>operationState :=
        sampleState\<lparr>Kind := RunHook, Step := Queued, Leader := True\<rparr>\<rparr>)
   = Returns (Some Mode_Continue) None
       (sampleUniter\<lparr>operationState :=
          sampleState\<lparr>Kind := RunHook, Step := Queued, Leader := False\<rparr>,
          calls := [InitializeMetricsCollector, ClaimLeader,
                    RunOperation NewResignLeadershipOp]\<rparr>) []
   \<and> ModeContinue
       (sampleEnv\<lparr>initializeMetricsCollector := noMetrics\<rparr>) []
       (sampleUniter\<lparr>operationState := sampleState\<lparr>Kind := RunHook, Step := Queued\<rparr>\<rparr>)
     = Returns None (Some (Annotatef (Trace (Failure ''no metrics'')) ''ModeContinue''))
         (sampleUniter\<lparr>operationState := sampleState\<lparr>Kind := RunHook, Step := Queued\<rparr>,
            calls := [InitializeMetricsCollector]\<rparr>) []"
  by (simp add: sample_defs step_defs ModeContinue_def checkLeadership_def)

subsection \<open>The leadership check\<close>

text \<open>
  C4, as the code has it. On a pass of ModeContinue whose state is of a kind other than
  Install and Upgrade, when the metrics collector has been initialised and the
  LeaderElection flag is on: if the tracker's claim differs from the persisted \<open>Leader\<close>,
  exactly one leadership operation is run, accept-leadership when the claim is true and
  resign-leadership when it is false. When it succeeds ModeContinue is returned; when it
  fails with a cause other than \<open>ErrCannotAcceptLeadership\<close> the traced error is returned;
  when it fails with that cause the switch on the kind and the step goes on. In each case
  the pass has run one leadership operation and no other.
\<close>

theorem ModeContinue_enacts_leadership_change:
  assumes kind: "Kind (operationState u) \<noteq> Install" "Kind (operationState u) \<noteq> Upgrade"
    and init: "initializeMetricsCollector env u = None"
    and flag: "LeaderElection env"
    and differs:
      "claimLeader env (logCall InitializeMetricsCollector u) \<noteq> Leader (operationState u)"
    and c: "c = (if claimLeader env (logCall InitializeMetricsCollector u)
                 then NewAcceptLeadershipOp else NewResignLeadershipOp)"
    and u1: "u1 = logCall ClaimLeader (logCall InitializeMetricsCollector u)"
  shows
    "(\<forall>u2. execute env c u1 = (None, u2) \<longrightarrow>
        ModeContinue env rs u =
          Returns (Some Mode_Continue) None (u2\<lparr>calls := calls u1 @ [RunOperation c]\<rparr>) rs)
   \<and> (\<forall>err u2. execute env c u1 = (Some err, u2) \<and> Cause err \<noteq> ErrCannotAcceptLeadership \<longrightarrow>
        ModeContinue env rs u =
          Returns None (Some (Annotatef (Trace err) ''ModeContinue''))
            (u2\<lparr>calls := calls u1 @ [RunOperation c]\<rparr>) rs)
   \<and> (\<forall>err u2. execute env c u1 = (Some err, u2) \<and> Cause err = ErrCannotAcceptLeadership \<longrightarrow>
        ModeContinue env rs u =
          modeContext ''ModeContinue''
            (chooseNext env (operationState u) rs (u2\<lparr>calls := calls u1 @ [RunOperation c]\<rparr>)))
   \<and> filter isLeadershipOp (newCalls u (ModeContinue env rs u)) = [RunOperation c]"
proof -
  let ?u0 = "logCall InitializeMetricsCollector u"
  obtain e u2 where ex: "execute env c u1 = (e, u2)" by (cases "execute env c u1")
  let ?u2 = "u2\<lparr>calls := calls u1 @ [RunOperation c]\<rparr>"
  have run: "runOperation env c u1 = (e, ?u2)"
    using ex by (simp add: runOperation_def)
  have MC: "ModeContinue env rs u =
      modeContext ''ModeContinue''
        (case checkLeadership env (operationState u) rs ?u0 of
           Inl out \<Rightarrow> out | Inr u1 \<Rightarrow> chooseNext env (operationState u) rs u1)"
    using kind init by (simp add: ModeContinue_def Let_def)
  have CL: "checkLeadership env (operationState u) rs ?u0 =
      (case e of None \<Rightarrow> Inl (Returns (Some Mode_Continue) None ?u2 rs)
       | Some err \<Rightarrow> if Cause err \<noteq> ErrCannotAcceptLeadership
                     then Inl (Returns None (Some (Trace err)) ?u2 rs) else Inr ?u2)"
    using flag differs run c u1 by (auto simp: checkLeadership_def Let_def split: option.splits)
  have c_lead: "isLeadershipOp (RunOperation c)" using c by simp
  have calls_u1: "calls u1 = calls u @ [InitializeMetricsCollector, ClaimLeader]"
    using u1 by (simp add: logCall_def)
  have count: "filter isLeadershipOp (newCalls u (ModeContinue env rs u)) = [RunOperation c]"
  proof (cases e)
    case None
    then show ?thesis
      using MC CL c_lead calls_u1 by (simp add: modeContext_Returns newCalls_def)
  next
    case (Some err)
    show ?thesis
    proof (cases "Cause err = ErrCannotAcceptLeadership")
      case False
      then show ?thesis
        using MC CL Some c_lead calls_u1 by (simp add: modeContext_Returns newCalls_def)
    next
      case True
      obtain cs where
        "calls (final (chooseNext env (operationState u) rs ?u2)) = calls ?u2 @ cs"
        "filter isLeadershipOp cs = []"
        using calls_chooseNext by blast
      then show ?thesis
        using MC CL Some True c_lead calls_u1 by (simp add: final_modeContext newCalls_def)
    qed
  qed
  show ?thesis
    using MC CL ex count by (auto simp: modeContext_Returns)
qed

theorem ModeContinue_enacts_leadership_change_witness:
  "Kind (operationState sampleUniter) \<noteq> Install \<and> Kind (operationState sampleUniter) \<noteq> Upgrade
   \<and> initializeMetricsCollector (sampleEnv\<lparr>claimLeader := claimed\<rparr>) sampleUniter = None
   \<and> LeaderElection (sampleEnv\<lparr>claimLeader := claimed\<rparr>)
   \<and> claimLeader (sampleEnv\<lparr>claimLeader := claimed\<rparr>)
       (logCall InitializeMetricsCollector sampleUniter) \<noteq> Leader (operationState sampleUniter)
   \<and> ModeContinue (sampleEnv\<lparr>claimLeader := claimed\<rparr>) [] sampleUniter
     = Returns (Some Mode_Continue) None
         (sampleUniter\<lparr>operationState := sampleState\<lparr>Leader := True\<rparr>,
            calls := [InitializeMetricsCollector, ClaimLeader,
                      RunOperation NewAcceptLeadershipOp]\<rparr>) []
   \<and> filter isLeadershipOp
       (newCalls sampleUniter (ModeContinue (sampleEnv\<lparr>claimLeader := claimed\<rparr>) [] sampleUniter))
     = [RunOperation NewAcceptLeadershipOp]"
proof -
  let ?env = "sampleEnv\<lparr>claimLeader := claimed\<rparr>"
  let ?u1 = "logCall ClaimLeader (logCall InitializeMetricsCollector sampleUniter)"
  have kind: "Kind (operationState sampleUniter) \<noteq> Install"
    "Kind (operationState sampleUniter) \<noteq> Upgrade"
    by (simp_all add: sample_defs)
  have init: "initializeMetricsCollector ?env sampleUniter = None"
    by (simp add: sample_defs)
  have flag: "LeaderElection ?env"
    by (simp add: sample_defs)
  have differs: "claimLeader ?env (logCall InitializeMetricsCollector sampleUniter)
      \<noteq> Leader (operationState sampleUniter)"
    by (simp add: sample_defs)
  have c: "NewAcceptLeadershipOp =
      (if claimLeader ?env (logCall InitializeMetricsCollector sampleUniter)
       then NewAcceptLeadershipOp else NewResignLeadershipOp)"
    by (simp add: claimed_def)
  have exec: "execute ?env NewAcceptLeadershipOp ?u1 =
      (None, ?u1\<lparr>operationState := sampleState\<lparr>Leader := True\<rparr>\<rparr>)"
    by (simp add: sample_defs logCall_def)
  from ModeContinue_enacts_leadership_change [OF kind init flag differs c refl, of "[]"] exec
  have "ModeContinue ?env [] sampleUniter =
      Returns (Some Mode_Continue) None
        (?u1\<lparr>operationState := sampleState\<lparr>Leader := True\<rparr>,
              calls := calls ?u1 @ [RunOperation NewAcceptLeadershipOp]\<rparr>) []"
    by blast
  with kind init flag differs show ?thesis
    by (simp add: logCall_def newCalls_def sample_defs)
qed

text \<open>
  C4 as stated fails. With the LeaderElection flag off the tracker is not asked and no
  leadership operation is run, although it would claim a leadership the state does not
  record; and with the flag on, when the metrics collector cannot be initialised,
  ModeContinue returns that error before the tracker is asked.
\<close>

theorem leadership_change_counterexample:
  "ModeContinue (sampleEnv\<lparr>LeaderElection := False, claimLeader := claimed\<rparr>) [] sampleUniter
   = Returns (Some Mode_Abide) None (sampleUniter\<lparr>calls := [InitializeMetricsCollector]\<rparr>) []
   \<and> ModeContinue
       (sampleEnv\<lparr>claimLeader := claimed,
                  initializeMetricsCollector := noMetrics\<rparr>) []
       sampleUniter
     = Returns None (Some (Annotatef (Trace (Failure ''no metrics'')) ''ModeContinue''))
         (sampleUniter\<lparr>calls := [InitializeMetricsCollector]\<rparr>) []"
  by (simp add: sample_defs step_defs ModeContinue_def checkLeadership_def chooseNext_def
      hooks_Stop_def)

subsection \<open>After a hook\<close>

text \<open>
  C6, as the code has it. For a state of kind Continue that records its hook, once the
  metrics collector is initialised and the leadership check lets the pass go on with the
  Uniter \<open>u1\<close>, ModeContinue returns a next mode and no error: Terminating when the kind of
  the hook is stop, Abide in every other case.
\<close>

theorem ModeContinue_after_hook:
  assumes "Kind (operationState u) = Continue"
    and "Hook (operationState u) = Some h"
    and "initializeMetricsCollector env u = None"
    and "checkLeadership env (operationState u) rs (logCall InitializeMetricsCollector u) = Inr u1"
  shows "ModeContinue env rs u =
           Returns (Some (if Kind_hook h = hooks_Stop then Mode_Terminating else Mode_Abide))
             None u1 rs"
  using assms by (simp add: ModeContinue_dispatch chooseNext_def modeContext_Returns)

theorem ModeContinue_after_hook_witness:
  "Kind (operationState (sampleUniter\<lparr>operationState :=
       sampleState\<lparr>Hook := Some (sampleHook\<lparr>Kind_hook := hooks_Stop\<rparr>)\<rparr>\<rparr>)) = Continue
   \<and> ModeContinue sampleEnv []
       (sampleUniter\<lparr>operationState :=
          sampleState\<lparr>Hook := Some (sampleHook\<lparr>Kind_hook := hooks_Stop\<rparr>)\<rparr>\<rparr>)
     = Returns (Some Mode_Terminating) None
         (sampleUniter\<lparr>operationState :=
            sampleState\<lparr>Hook := Some (sampleHook\<lparr>Kind_hook := hooks_Stop\<rparr>)\<rparr>,
            calls := [InitializeMetricsCollector, ClaimLeader]\<rparr>) []"
proof -
  let ?u = "sampleUniter\<lparr>operationState :=
      sampleState\<lparr>Hook := Some (sampleHook\<lparr>Kind_hook := hooks_Stop\<rparr>)\<rparr>\<rparr>"
  have kind: "Kind (operationState ?u) = Continue"
    by (simp add: sample_defs)
  have hook: "Hook (operationState ?u) = Some (sampleHook\<lparr>Kind_hook := hooks_Stop\<rparr>)"
    by (simp add: sample_defs)
  have init: "initializeMetricsCollector sampleEnv ?u = None"
    by (simp add: sample_defs)
  have check: "checkLeadership sampleEnv (operationState ?u) []
      (logCall InitializeMetricsCollector ?u) = Inr (?u\<lparr>calls := [InitializeMetricsCollector, ClaimLeader]\<rparr>)"
    by (simp add: sample_defs checkLeadership_def logCall_def)
  from ModeContinue_after_hook [OF kind hook init check] kind show ?thesis
    by simp
qed

text \<open>
  C6 as stated fails. On a state of kind Continue with no hook recorded ModeContinue reads
  the kind of the hook through a nil pointer and panics; when the metrics collector cannot
  be initialised it returns that error; and when the tracker no longer claims the
  leadership the state records, it runs a resign-leadership operation and returns
  ModeContinue, neither Terminating nor Abide.
\<close>

theorem after_hook_counterexample:
  "ModeContinue sampleEnv [] (sampleUniter\<lparr>operationState := sampleState\<lparr>Hook := None\<rparr>\<rparr>)
   = Panics (sampleUniter\<lparr>operationState := sampleState\<lparr>Hook := None\<rparr>,
               calls := [InitializeMetricsCollector, ClaimLeader]\<rparr>)
   \<and> ModeContinue
       (sampleEnv\<lparr>initializeMetricsCollector := noMetrics\<rparr>) []
       sampleUniter
     = Returns None (Some (Annotatef (Trace (Failure ''no metrics'')) ''ModeContinue''))
         (sampleUniter\<lparr>calls := [InitializeMetricsCollector]\<rparr>) []
   \<and> ModeContinue sampleEnv [] (sampleUniter\<lparr>operationState := sampleState\<lparr>Leader := True\<rparr>\<rparr>)
     = Returns (Some Mode_Continue) None
         (sampleUniter\<lparr>operationState := sampleState\<lparr>Leader := False\<rparr>,
            calls := [InitializeMetricsCollector, ClaimLeader,
                      RunOperation NewResignLeadershipOp]\<rparr>) []"
  by (simp add: sample_defs step_defs ModeContinue_def checkLeadership_def chooseNext_def)

subsection \<open>The select, and the calls a loop adds to the log\<close>

lemma select_Some: "select w r = Some e \<Longrightarrow> w e \<and> e \<in> set (fst r)"
proof -
  assume a: "select w r = Some e"
  then obtain x xs where f: "filter w (fst r) = x # xs" and e: "e = (x # xs) ! (snd r mod length (x # xs))"
    by (auto simp: select_def split: list.splits)
  have "e \<in> set (x # xs)" unfolding e by (rule nth_mem) simp
  then have "e \<in> set (filter w (fst r))" using f by simp
  then show ?thesis by simp
qed

lemma runOperation_eq:
  "runOperation env c u = (fst (execute env c u), (snd (execute env c u))\<lparr>calls := calls u @ [RunOperation c]\<rparr>)"
  by (simp add: runOperation_def split: prod.splits)

lemma dyingWaits_cases:
  "dyingWaits e \<Longrightarrow> e = TombDying \<or> (\<exists>a. e = ActionEvent a) \<or> e = ConfigEvent \<or>
     e = LeaderSettingsEvent \<or> (\<exists>h. e = RelationsHook h)"
  by (cases e) simp_all

lemma dyingCreator_not_stop:
  "dyingWaits e \<Longrightarrow> dyingCreator e \<noteq> NewSimpleRunHookOp hooks_Stop"
  by (cases e) (simp_all add: hooks_Stop_def hooks_ConfigChanged_def leader_settings_changed_def)

lemma dyingLoop_step:
  assumes "relationsGetInfo env u \<noteq> 0" "select dyingWaits r = Some e" "e \<noteq> TombDying"
  shows "dyingLoop env (r # rs) u =
     (case runOperation env (dyingCreator e) u of
        (Some err, u1) \<Rightarrow> Returns None (Some (Trace err)) u1 rs
      | (None, u1) \<Rightarrow> dyingLoop env rs u1)"
  using assms select_Some [of dyingWaits r e] by (cases e) simp_all

lemma dyingLoop_returns:
  "dyingLoop env rs u = Returns next err u' rs' \<Longrightarrow>
     (next = None \<and> err \<noteq> None) \<or>
     (next = Some Mode_Continue \<and> err = None \<and>
      last (calls u') = RunOperation (NewSimpleRunHookOp hooks_Stop))"
proof (induction rs arbitrary: u)
  case Nil
  then show ?case
    by (auto simp: continueAfter_eq split: if_splits prod.splits option.splits)
next
  case (Cons r rs)
  show ?case
  proof (cases "relationsGetInfo env u = 0")
    case True
    with Cons.prems show ?thesis
      by (auto simp: continueAfter_eq split: prod.splits option.splits)
  next
    case False
    show ?thesis
    proof (cases "select dyingWaits r")
      case None
      with False Cons.prems show ?thesis by simp
    next
      case (Some e)
      show ?thesis
      proof (cases "e = TombDying")
        case True
        with False Some Cons.prems show ?thesis by auto
      next
        case ne: False
        from dyingLoop_step [OF False Some ne] Cons.prems Cons.IH
        show ?thesis
          by (auto simp: runOperation_eq split: option.splits)
      qed
    qed
  qed
qed

lemma hookErrorLoop_reasserts:
  "\<exists>cs. calls (final (hookErrorLoop env hi msg data ld rs u)) =
          calls u @ SetAgentStatus StatusError msg data # cs"
proof (induction rs arbitrary: u ld)
  case Nil
  show ?case by (simp add: perform_def logCall_def split: option.splits)
next
  case (Cons r rs)
  show ?case
  proof (cases "setAgentStatus env StatusError msg data u")
    case (Some err)
    then show ?thesis by (simp add: perform_def logCall_def)
  next
    case None
    let ?u1 = "logCall (SetAgentStatus StatusError msg data) u"
    have u1: "calls ?u1 = calls u @ [SetAgentStatus StatusError msg data]"
      by (simp add: logCall_def)
    show ?thesis
    proof (cases "select (hookErrorWaits ld) r")
      case N: None
      then show ?thesis using None by (simp add: perform_def logCall_def)
    next
      case S: (Some e)
      show ?thesis
      proof (cases e)
        case (ResolvedEvent rm)
        show ?thesis
        proof (cases "resolved env hi rm rs ?u1")
          case (Inl out)
          then have "\<exists>cs. calls (final out) = calls ?u1 @ cs"
            by (auto simp: resolved_def runOperation_def Let_def split: if_splits prod.splits option.splits)
          then show ?thesis using None S ResolvedEvent Inl u1 by (auto simp: perform_def)
        next
          case (Inr u2)
          then have "\<exists>cs. calls u2 = calls ?u1 @ cs"
            by (auto simp: resolved_def runOperation_def Let_def split: if_splits prod.splits option.splits)
          moreover from Cons.IH [of ld u2] obtain cs' where
            "calls (final (hookErrorLoop env hi msg data ld rs u2)) = calls u2 @ SetAgentStatus StatusError msg data # cs'"
            by blast
          ultimately show ?thesis using None S ResolvedEvent Inr u1 by (auto simp: perform_def)
        qed
      next
        case LeaderDeposed
        obtain e2 u2 where ro: "runOperation env NewResignLeadershipOp ?u1 = (e2, u2)"
          by (cases "runOperation env NewResignLeadershipOp ?u1")
        then have c2: "calls u2 = calls ?u1 @ [RunOperation NewResignLeadershipOp]"
          by (auto simp: runOperation_def split: prod.splits)
        from Cons.IH [of False u2] obtain cs' where
            "calls (final (hookErrorLoop env hi msg data False rs u2)) = calls u2 @ SetAgentStatus StatusError msg data # cs'"
            by blast
        then show ?thesis using None S LeaderDeposed ro c2 u1
          by (cases e2) (auto simp: perform_def)
      qed (use None S u1 in \<open>auto simp: perform_def\<close>)
    qed
  qed
qed

lemma resolved_modes_differ: "ResolvedRetryHooks \<noteq> ResolvedNoHooks"
  by (simp add: ResolvedRetryHooks_def ResolvedNoHooks_def)

lemma adds_refl [simp]:
  "adds P u (Returns next err u rs)" "adds P u (Blocks u)" "adds P u (Panics u)"
  by (simp_all add: adds_def)


lemma adds_after:
  assumes "calls u1 = calls u @ [c]" "P c" "adds P u1 out"
  shows "adds P u out"
proof -
  from assms(3) obtain cs where "calls (final out) = calls u1 @ cs" "\<forall>c \<in> set cs. P c"
    by (auto simp: adds_def)
  with assms(1,2) have "calls (final out) = calls u @ (c # cs)" "\<forall>x \<in> set (c # cs). P x"
    by simp_all
  then show ?thesis unfolding adds_def by blast
qed


lemma adds_perform:
  "perform f c u = (e, u1) \<Longrightarrow> P c \<Longrightarrow> adds P u1 out \<Longrightarrow> adds P u out"
  by (rule adds_after [of u1 u c]) (auto simp: perform_def logCall_def)













lemma quiet_simps [simp]:
  "quiet b UnitRefresh" "quiet b UnitDestroyAllSubordinates" "quiet b RelationsSetDying"
  "quiet b UnitHasSubordinates" "quiet b UnitEnsureDead" "quiet b UnitWatch" "quiet b WatcherStop"
  "quiet b (SetAgentStatus st msg data)" "quiet b DeployerFix" "quiet b (WantUpgradeEvent f)"
  "quiet b WantResolvedEvent" "quiet b RelationsStartHooks" "quiet b RelationsStopHooks"
  "quiet b (RelationsName i)" "quiet b InitializeMetricsCollector"
  "quiet b (WantLeaderSettingsEvents False)"
  by (simp_all add: quiet_def)



lemma quiet_ops [simp]:
  "quiet b (RunOperation (NewActionOp a))" "quiet b (RunOperation (NewSkipHookOp h))"
  "quiet b (RunOperation (NewRunHookOp h))" "quiet b (RunOperation (NewRetryHookOp h))"
  "quiet b (RunOperation NilCreator)" "quiet b (RunOperation (NewInstallOp curl))"
  "quiet b (RunOperation (NewUpgradeOp curl))" "quiet b (RunOperation (NewRevertUpgradeOp curl))"
  "quiet b (RunOperation (NewResolvedUpgradeOp curl))"
  "quiet b (RunOperation (NewUpdateRelationsOp ids))"
  "quiet b (RunOperation (NewUpdateStorageOp tags))"
  "quiet b (RunOperation (NewSimpleRunHookOp hooks_Stop))"
  "quiet b (RunOperation (NewSimpleRunHookOp hooks_Start))"
  "quiet b (RunOperation (NewSimpleRunHookOp hooks_ConfigChanged))"
  "quiet b (RunOperation (NewSimpleRunHookOp hooks_MeterStatusChanged))"
  "quiet b (RunOperation (NewSimpleRunHookOp hooks_CollectMetrics))"
  by (simp_all add: quiet_def hooks_Stop_def hooks_Start_def hooks_ConfigChanged_def
      hooks_MeterStatusChanged_def hooks_CollectMetrics_def leader_settings_changed_def)


















subsection \<open>Resolving a hook error\<close>

text \<open>When its state is of kind RunHook with the step Pending and records a hook that is
  not a relation hook, ModeHookError asks for the resolved and the upgrade events and runs
  its loop.\<close>

lemma ModeHookError_enters_loop:
  assumes "Kind (operationState u) = RunHook" and "Step (operationState u) = Pending"
    and "Hook (operationState u) = Some hi" and "\<not> IsRelation (Kind_hook hi)"
    and "\<not> (LeaderElection env \<and> Leader (operationState u))"
  shows "ModeHookError env rs u =
           modeContext ''ModeHookError''
             (hookErrorLoop env hi (hookFailedMessage (Kind_hook hi))
                [(''hook'', StringValue (Kind_hook hi))] False rs
                (logCall (WantUpgradeEvent True) (logCall WantResolvedEvent u)))"
  using assms by (auto simp: ModeHookError_def hookErrorWatch_def Let_def)

text \<open>
  C5. In the loop of the HookError mode, once the error status is set, a resolution event
  with the retry value runs exactly one retry operation for the failed hook, and one with
  the no-hooks value exactly one skip operation; any other value returns the fatal error
  "unknown resolved mode" and runs nothing. When the operation fails with the cause
  \<open>ErrHookFailed\<close> the loop goes round again, and sets the error status again right after
  the operation; any other failure is returned, traced; and when the operation succeeds
  the mode returns ModeContinue.
\<close>

theorem HookError_resolution:
  assumes status: "setAgentStatus env StatusError msg data u = None"
    and sel: "select (hookErrorWaits ld) r = Some (ResolvedEvent rm)"
    and u1: "u1 = logCall (SetAgentStatus StatusError msg data) u"
  shows
    "(rm \<noteq> ResolvedRetryHooks \<and> rm \<noteq> ResolvedNoHooks \<longrightarrow>
        hookErrorLoop env hi msg data ld (r # rs) u =
          Returns None (Some (UnknownResolvedMode rm)) u1 rs)
   \<and> (rm = ResolvedRetryHooks \<and> c = NewRetryHookOp hi \<or>
       rm = ResolvedNoHooks \<and> c = NewSkipHookOp hi \<longrightarrow>
        (\<forall>u2. execute env c u1 = (None, u2) \<longrightarrow>
           hookErrorLoop env hi msg data ld (r # rs) u =
             Returns (Some Mode_Continue) None (u2\<lparr>calls := calls u1 @ [RunOperation c]\<rparr>) rs)
      \<and> (\<forall>err u2. execute env c u1 = (Some err, u2) \<and> Cause err = ErrHookFailed \<longrightarrow>
           hookErrorLoop env hi msg data ld (r # rs) u =
             hookErrorLoop env hi msg data ld rs (u2\<lparr>calls := calls u1 @ [RunOperation c]\<rparr>)
           \<and> (\<exists>cs. calls (final (hookErrorLoop env hi msg data ld (r # rs) u)) =
                 calls u1 @ RunOperation c # SetAgentStatus StatusError msg data # cs))
      \<and> (\<forall>err u2. execute env c u1 = (Some err, u2) \<and> Cause err \<noteq> ErrHookFailed \<longrightarrow>
           hookErrorLoop env hi msg data ld (r # rs) u =
             Returns None (Some (Trace err)) (u2\<lparr>calls := calls u1 @ [RunOperation c]\<rparr>) rs))"
proof -
  have loop: "hookErrorLoop env hi msg data ld (r # rs) u =
      (case resolved env hi rm rs u1 of Inl out \<Rightarrow> out
       | Inr u2 \<Rightarrow> hookErrorLoop env hi msg data ld rs u2)"
    using status sel u1 by (simp add: perform_def)
  have unknown:
    "resolved env hi rm rs u1 = Inl (Returns None (Some (UnknownResolvedMode rm)) u1 rs)"
    if "rm \<noteq> ResolvedRetryHooks" "rm \<noteq> ResolvedNoHooks"
    using that by (simp add: resolved_def)
  have known: "resolved env hi rm rs u1 =
      (case execute env c u1 of
         (None, u2) \<Rightarrow>
           Inl (Returns (Some Mode_Continue) None (u2\<lparr>calls := calls u1 @ [RunOperation c]\<rparr>) rs)
       | (Some err, u2) \<Rightarrow>
           if Cause err = ErrHookFailed then Inr (u2\<lparr>calls := calls u1 @ [RunOperation c]\<rparr>)
           else Inl (Returns None (Some (Trace err))
                       (u2\<lparr>calls := calls u1 @ [RunOperation c]\<rparr>) rs))"
    if "rm = ResolvedRetryHooks \<and> c = NewRetryHookOp hi \<or>
        rm = ResolvedNoHooks \<and> c = NewSkipHookOp hi"
    using that resolved_modes_differ
    by (auto simp: resolved_def runOperation_def Let_def split: prod.splits option.splits)
  have again:
    "\<exists>cs. calls (final (hookErrorLoop env hi msg data ld rs
              (u2\<lparr>calls := calls u1 @ [RunOperation c]\<rparr>))) =
          calls u1 @ RunOperation c # SetAgentStatus StatusError msg data # cs" for u2
    using hookErrorLoop_reasserts
      [of env hi msg data ld rs "u2\<lparr>calls := calls u1 @ [RunOperation c]\<rparr>"]
    by simp
  show ?thesis
    using loop unknown known again by auto
qed

theorem HookError_resolution_witness:
  "setAgentStatus sampleEnv StatusError (hookFailedMessage ''install'')
     [(''hook'', StringValue ''install'')]
     (logCall (WantUpgradeEvent True) (logCall WantResolvedEvent installFailed)) = None
   \<and> select (hookErrorWaits False) ([ResolvedEvent ResolvedRetryHooks], 0) =
       Some (ResolvedEvent ResolvedRetryHooks)
   \<and> ModeHookError sampleEnv [([ResolvedEvent ResolvedRetryHooks], 0)] installFailed
     = Returns (Some Mode_Continue) None
         (installFailed\<lparr>operationState :=
            sampleState\<lparr>Kind := Continue, Step := Pending,
                         Hook := Some (sampleHook\<lparr>Kind_hook := ''install''\<rparr>)\<rparr>,
            calls := [WantResolvedEvent, WantUpgradeEvent True,
                      SetAgentStatus StatusError (hookFailedMessage ''install'')
                        [(''hook'', StringValue ''install'')],
                      RunOperation (NewRetryHookOp (sampleHook\<lparr>Kind_hook := ''install''\<rparr>))]\<rparr>) []"
proof -
  let ?hi = "sampleHook\<lparr>Kind_hook := ''install''\<rparr>"
  let ?msg = "hookFailedMessage ''install''"
  let ?data = "[(''hook'', StringValue ''install'')]"
  let ?u = "logCall (WantUpgradeEvent True) (logCall WantResolvedEvent installFailed)"
  let ?u1 = "logCall (SetAgentStatus StatusError ?msg ?data) ?u"
  let ?r = "([ResolvedEvent ResolvedRetryHooks], 0::nat)"
  have status: "setAgentStatus sampleEnv StatusError ?msg ?data ?u = None"
    by (simp add: sample_defs)
  have sel: "select (hookErrorWaits False) ?r = Some (ResolvedEvent ResolvedRetryHooks)"
    by (simp add: select_def)
  have exec: "execute sampleEnv (NewRetryHookOp ?hi) ?u1 =
      (None, ?u1\<lparr>operationState := persists (NewRetryHookOp ?hi) (operationState ?u1)\<rparr>)"
    by (simp add: sample_defs)
  from HookError_resolution [OF status sel refl, where hi = ?hi and c = "NewRetryHookOp ?hi" and rs = "[]"] exec
  have loop: "hookErrorLoop sampleEnv ?hi ?msg ?data False [?r] ?u =
      Returns (Some Mode_Continue) None
        (?u1\<lparr>operationState := persists (NewRetryHookOp ?hi) (operationState ?u1),
               calls := calls ?u1 @ [RunOperation (NewRetryHookOp ?hi)]\<rparr>) []"
    by blast
  have enter: "ModeHookError sampleEnv [?r] installFailed =
      modeContext ''ModeHookError'' (hookErrorLoop sampleEnv ?hi ?msg ?data False [?r] ?u)"
    using ModeHookError_enters_loop [where u = installFailed and hi = ?hi and env = sampleEnv and rs = "[?r]"]
    by (simp add: installFailed_def sample_defs IsRelation_def)
  have "ModeHookError sampleEnv [?r] installFailed =
      modeContext ''ModeHookError''
        (Returns (Some Mode_Continue) None
          (?u1\<lparr>operationState := persists (NewRetryHookOp ?hi) (operationState ?u1),
                 calls := calls ?u1 @ [RunOperation (NewRetryHookOp ?hi)]\<rparr>) [])"
    by (simp only: enter loop)
  with status sel show ?thesis
    by (simp add: modeContext_Returns installFailed_def sample_defs logCall_def)
qed

subsection \<open>Resolving an upgrade conflict\<close>

text \<open>
  C8. In the Conflicted mode for the charm URL \<open>curl\<close>, once the error status
  "upgrade failed" is set and the resolved and upgrade events are asked for, the event the
  select receives decides the one operation that is run: an upgrade event for the URL
  \<open>curl'\<close> runs exactly one revert-upgrade operation for \<open>curl'\<close>, a resolved event
  exactly one resolved-upgrade operation for \<open>curl\<close>. The mode returns ModeContinue
  when the operation succeeds and the traced error, a fatal one, when it fails.
\<close>

theorem Conflicted_runs_one_operation:
  assumes status: "setAgentStatus env StatusError ''upgrade failed'' [] u = None"
    and sel: "select conflictedWaits r = Some e"
    and c: "e = UpgradeEvent curl' \<and> c = NewRevertUpgradeOp curl' \<or>
            e = ResolvedEvent rm \<and> c = NewResolvedUpgradeOp curl"
    and u1: "u1 = u\<lparr>calls := calls u @ [SetAgentStatus StatusError ''upgrade failed'' [],
                  WantResolvedEvent, WantUpgradeEvent True]\<rparr>"
  shows
    "(\<forall>u2. execute env c u1 = (None, u2) \<longrightarrow>
        conflicted curl env (r # rs) u =
          Returns (Some Mode_Continue) None (u2\<lparr>calls := calls u1 @ [RunOperation c]\<rparr>) rs)
   \<and> (\<forall>err u2. execute env c u1 = (Some err, u2) \<longrightarrow>
        conflicted curl env (r # rs) u =
          Returns None (Some (Annotatef (Trace err) ''ModeConflicted''))
            (u2\<lparr>calls := calls u1 @ [RunOperation c]\<rparr>) rs)"
proof -
  have "conflicted curl env (r # rs) u =
      modeContext ''ModeConflicted'' (continueAfter env c rs u1)"
    using status sel c u1 by (auto simp: conflicted_def perform_def logCall_def)
  then show ?thesis
    by (auto simp: continueAfter_eq modeContext_Returns)
qed

theorem Conflicted_runs_one_operation_witness:
  "setAgentStatus sampleEnv StatusError ''upgrade failed'' [] sampleUniter = None
   \<and> select conflictedWaits ([UpgradeEvent (Some ''cs:foo-4'')], 0) =
       Some (UpgradeEvent (Some ''cs:foo-4''))
   \<and> conflicted (Some ''cs:foo-3'') sampleEnv [([UpgradeEvent (Some ''cs:foo-4'')], 0)]
       sampleUniter
     = Returns (Some Mode_Continue) None
         (sampleUniter\<lparr>calls := [SetAgentStatus StatusError ''upgrade failed'' [],
            WantResolvedEvent, WantUpgradeEvent True,
            RunOperation (NewRevertUpgradeOp (Some ''cs:foo-4''))]\<rparr>) []"
proof -
  let ?u1 = "sampleUniter\<lparr>calls := calls sampleUniter @
      [SetAgentStatus StatusError ''upgrade failed'' [], WantResolvedEvent,
       WantUpgradeEvent True]\<rparr>"
  have status: "setAgentStatus sampleEnv StatusError ''upgrade failed'' [] sampleUniter = None"
    by (simp add: sample_defs)
  have sel: "select conflictedWaits ([UpgradeEvent (Some ''cs:foo-4'')], 0) =
      Some (UpgradeEvent (Some ''cs:foo-4''))"
    by (simp add: select_def)
  have c: "UpgradeEvent (Some ''cs:foo-4'') = UpgradeEvent (Some ''cs:foo-4'') \<and>
        NewRevertUpgradeOp (Some ''cs:foo-4'') = NewRevertUpgradeOp (Some ''cs:foo-4'') \<or>
      UpgradeEvent (Some ''cs:foo-4'') = ResolvedEvent [] \<and>
        NewRevertUpgradeOp (Some ''cs:foo-4'') = NewResolvedUpgradeOp (Some ''cs:foo-3'')"
    by simp
  have exec: "execute sampleEnv (NewRevertUpgradeOp (Some ''cs:foo-4'')) ?u1 = (None, ?u1)"
    by (simp add: sample_defs)
  from Conflicted_runs_one_operation [OF status sel c refl, where rs = "[]"] exec
  have "conflicted (Some ''cs:foo-3'') sampleEnv [([UpgradeEvent (Some ''cs:foo-4'')], 0)]
      sampleUniter
    = Returns (Some Mode_Continue) None
        (?u1\<lparr>calls := calls ?u1 @ [RunOperation (NewRevertUpgradeOp (Some ''cs:foo-4''))]\<rparr>) []"
    by blast
  with status sel show ?thesis
    by (simp add: sample_defs)
qed

subsection \<open>The dying loop\<close>

text \<open>The dying loop with its preamble returns what its loop returns, or the error of
  the preamble.\<close>

lemma modeAbideDyingLoop_returns:
  "modeAbideDyingLoop env rs u = Returns next err u' rs' \<Longrightarrow>
     (next = None \<and> err \<noteq> None) \<or>
     (next = Some Mode_Continue \<and> err = None \<and>
      last (calls u') = RunOperation (NewSimpleRunHookOp hooks_Stop))"
  by (auto simp: modeAbideDyingLoop_def perform_def runOperation_eq
      split: option.splits if_splits dest: dyingLoop_returns)

text \<open>
  C7. The dying loop never returns the Abide mode: when it returns a mode, the mode is
  ModeContinue, there is no error, and the last operation run is the stop hook. An
  iteration that finds no relation left runs exactly one operation, the stop hook, and
  returns ModeContinue when it succeeds. An iteration that finds a relation left and
  receives an event other than the cancellation receives an action, a config change, a
  leader-settings change or a relation hook, and runs exactly one operation, the one for
  that event, which is not the stop hook; the loop then goes round again, or returns the
  traced error of the operation.
\<close>

theorem dying_loop_stops_after_last_relation:
  "(\<forall>next err u' rs'.
       modeAbideDyingLoop env rs u = Returns next err u' rs' \<or>
       dyingLoop env rs u = Returns next err u' rs' \<longrightarrow>
         next \<noteq> Some Mode_Abide \<and>
         (next = None \<and> err \<noteq> None \<or>
          next = Some Mode_Continue \<and> err = None \<and>
          last (calls u') = RunOperation (NewSimpleRunHookOp hooks_Stop)))
   \<and> (relationsGetInfo env u = 0 \<longrightarrow>
        (\<forall>u2. execute env (NewSimpleRunHookOp hooks_Stop) u = (None, u2) \<longrightarrow>
           dyingLoop env rs u =
             Returns (Some Mode_Continue) None
               (u2\<lparr>calls := calls u @ [RunOperation (NewSimpleRunHookOp hooks_Stop)]\<rparr>) rs)
      \<and> (\<forall>err u2. execute env (NewSimpleRunHookOp hooks_Stop) u = (Some err, u2) \<longrightarrow>
           dyingLoop env rs u =
             Returns None (Some (Trace err))
               (u2\<lparr>calls := calls u @ [RunOperation (NewSimpleRunHookOp hooks_Stop)]\<rparr>) rs))
   \<and> (relationsGetInfo env u \<noteq> 0 \<and> select dyingWaits r = Some e \<and> e \<noteq> TombDying \<longrightarrow>
        ((\<exists>a. e = ActionEvent a) \<or> e = ConfigEvent \<or> e = LeaderSettingsEvent \<or>
         (\<exists>h. e = RelationsHook h))
      \<and> dyingCreator e \<noteq> NewSimpleRunHookOp hooks_Stop
      \<and> (\<forall>u2. execute env (dyingCreator e) u = (None, u2) \<longrightarrow>
           dyingLoop env (r # rs) u =
             dyingLoop env rs (u2\<lparr>calls := calls u @ [RunOperation (dyingCreator e)]\<rparr>))
      \<and> (\<forall>err u2. execute env (dyingCreator e) u = (Some err, u2) \<longrightarrow>
           dyingLoop env (r # rs) u =
             Returns None (Some (Trace err))
               (u2\<lparr>calls := calls u @ [RunOperation (dyingCreator e)]\<rparr>) rs))"
proof -
  have never_Abide: "next \<noteq> Some Mode_Abide \<and>
      (next = None \<and> err \<noteq> None \<or>
       next = Some Mode_Continue \<and> err = None \<and>
       last (calls u') = RunOperation (NewSimpleRunHookOp hooks_Stop))"
    if "modeAbideDyingLoop env rs u = Returns next err u' rs' \<or>
        dyingLoop env rs u = Returns next err u' rs'" for "next" err u' rs'
    using that modeAbideDyingLoop_returns [of env rs u "next" err u' rs']
      dyingLoop_returns [of env rs u "next" err u' rs']
    by auto
  have stop: "dyingLoop env rs u = continueAfter env (NewSimpleRunHookOp hooks_Stop) rs u"
    if "relationsGetInfo env u = 0"
    using that by (cases rs) simp_all
  have step: "((\<exists>a. e = ActionEvent a) \<or> e = ConfigEvent \<or> e = LeaderSettingsEvent \<or>
         (\<exists>h. e = RelationsHook h))
      \<and> dyingCreator e \<noteq> NewSimpleRunHookOp hooks_Stop
      \<and> dyingLoop env (r # rs) u =
         (case runOperation env (dyingCreator e) u of
            (Some err, u1) \<Rightarrow> Returns None (Some (Trace err)) u1 rs
          | (None, u1) \<Rightarrow> dyingLoop env rs u1)"
    if "relationsGetInfo env u \<noteq> 0" "select dyingWaits r = Some e" "e \<noteq> TombDying"
    using that dyingLoop_step [OF that] select_Some [OF that(2)]
      dyingWaits_cases [of e] dyingCreator_not_stop [of e]
    by auto
  show ?thesis
    using never_Abide stop step
    by (auto simp: continueAfter_eq runOperation_eq simp del: dyingLoop.simps)
qed

theorem dying_loop_stops_after_last_relation_witness:
  "relationsGetInfo dyingEnv sampleUniter \<noteq> 0
   \<and> select dyingWaits ([RelationsHook lastRelation], 0) = Some (RelationsHook lastRelation)
   \<and> dyingLoop dyingEnv [([RelationsHook lastRelation], 0)] sampleUniter
     = Returns (Some Mode_Continue) None
         (sampleUniter\<lparr>operationState :=
            sampleState\<lparr>Kind := Continue, Step := Pending,
              Hook := Some \<lparr>Kind_hook = hooks_Stop, RelationId = 0, RemoteUnit = []\<rparr>\<rparr>,
            calls := [RunOperation (NewRunHookOp lastRelation),
                      RunOperation (NewSimpleRunHookOp hooks_Stop)]\<rparr>) []"
proof -
  let ?r = "([RelationsHook lastRelation], 0::nat)"
  let ?u2 = "sampleUniter\<lparr>operationState :=
      persists (NewRunHookOp lastRelation) (operationState sampleUniter)\<rparr>"
  let ?u3 = "?u2\<lparr>calls := calls sampleUniter @ [RunOperation (NewRunHookOp lastRelation)]\<rparr>"
  have left: "relationsGetInfo dyingEnv sampleUniter \<noteq> 0"
    by (simp add: dyingEnv_def sample_defs)
  have sel: "select dyingWaits ?r = Some (RelationsHook lastRelation)"
    by (simp add: select_def)
  have exec1: "execute dyingEnv (dyingCreator (RelationsHook lastRelation)) sampleUniter =
      (None, ?u2)"
    by (simp add: dyingEnv_def sample_defs)
  from dying_loop_stops_after_last_relation
         [where env = dyingEnv and u = sampleUniter and r = ?r
            and e = "RelationsHook lastRelation" and rs = "[]"]
       left sel exec1
  have first: "dyingLoop dyingEnv [?r] sampleUniter = dyingLoop dyingEnv [] ?u3"
    by (simp del: dyingLoop.simps)
  have none: "relationsGetInfo dyingEnv ?u3 = 0"
    by (simp add: dyingEnv_def sample_defs)
  have exec2: "execute dyingEnv (NewSimpleRunHookOp hooks_Stop) ?u3 =
      (None, ?u3\<lparr>operationState :=
         persists (NewSimpleRunHookOp hooks_Stop) (operationState ?u3)\<rparr>)"
    by (simp add: dyingEnv_def sample_defs)
  from dying_loop_stops_after_last_relation [where env = dyingEnv and u = ?u3 and rs = "[]"]
       none exec2
  have second: "dyingLoop dyingEnv [] ?u3 =
      Returns (Some Mode_Continue) None
        (?u3\<lparr>operationState := persists (NewSimpleRunHookOp hooks_Stop) (operationState ?u3),
               calls := calls ?u3 @ [RunOperation (NewSimpleRunHookOp hooks_Stop)]\<rparr>) []"
    by (simp del: dyingLoop.simps)
  have "dyingLoop dyingEnv [?r] sampleUniter =
      Returns (Some Mode_Continue) None
        (?u3\<lparr>operationState := persists (NewSimpleRunHookOp hooks_Stop) (operationState ?u3),
               calls := calls ?u3 @ [RunOperation (NewSimpleRunHookOp hooks_Stop)]\<rparr>) []"
    by (simp only: first second)
  with left sel show ?thesis
    by (simp add: sample_defs del: dyingLoop.simps)
qed

subsection \<open>Cancellation\<close>

lemma select_any:
  assumes "w e" "e \<in> set es"
  shows "\<exists>n. select w (es, n) = Some e"
proof -
  from assms have "e \<in> set (filter w es)" by simp
  then obtain i where i: "i < length (filter w es)" "filter w es ! i = e"
    unfolding in_set_conv_nth by blast
  then obtain x xs where xs: "filter w es = x # xs"
    by (cases "filter w es") auto
  with i have "select w (es, i) = Some e"
    by (simp add: select_def)
  then show ?thesis ..
qed

text \<open>
  C9, as the code has it. The cancellation \<open>u.tomb.Dying()\<close> is one of the waited cases of
  every select: of ModeTerminating, of the dying and the alive loop of ModeAbide, of
  ModeHookError and of ModeConflicted. Whenever the select takes that case the loop returns
  \<open>tomb.ErrDying\<close> with no next mode and runs no operation, and the deferred functions
  of the mode keep \<open>ErrDying\<close> as the cause of the error returned. The cancellation has no
  priority: the select takes one of the waited cases that are ready, and may take any of
  them.
\<close>

theorem cancellation_is_waited_and_fatal:
  "terminatingWaits TombDying \<and> dyingWaits TombDying \<and> aliveWaits chans TombDying
   \<and> hookErrorWaits ld TombDying \<and> conflictedWaits TombDying
   \<and> (select terminatingWaits r = Some TombDying \<longrightarrow>
        terminatingLoop env (r # rs) u = Returns None (Some ErrDying) u rs)
   \<and> (relationsGetInfo env u \<noteq> 0 \<and> select dyingWaits r = Some TombDying \<longrightarrow>
        dyingLoop env (r # rs) u = Returns None (Some ErrDying) u rs)
   \<and> (select (aliveWaits (fst (aliveArm env chans u))) r = Some TombDying \<longrightarrow>
        aliveLoop env chans (r # rs) u =
          Returns None (Some ErrDying) (snd (aliveArm env chans u)) rs)
   \<and> (setAgentStatus env StatusError msg data u = None \<and>
      select (hookErrorWaits ld) r = Some TombDying \<longrightarrow>
        hookErrorLoop env hi msg data ld (r # rs) u =
          Returns None (Some ErrDying) (logCall (SetAgentStatus StatusError msg data) u) rs)
   \<and> (select conflictedWaits r = Some TombDying \<longrightarrow>
        conflictedSelect curl env (r # rs) u = Returns None (Some ErrDying) u rs)
   \<and> modeContext name (Returns None (Some ErrDying) u rs) =
       Returns None (Some (Annotatef ErrDying name)) u rs
   \<and> Cause (Annotatef ErrDying name) = ErrDying
   \<and> deferCall WatcherStop (Returns None (Some ErrDying) u rs) =
       Returns None (Some ErrDying) (logCall WatcherStop u) rs
   \<and> deferStopHooks env (Returns None (Some ErrDying) u rs) =
       Returns None (Some ErrDying) (logCall RelationsStopHooks u) rs
   \<and> (select w (es, n) = Some e \<longrightarrow> w e \<and> e \<in> set es)
   \<and> (w e \<and> e \<in> set es \<longrightarrow> (\<exists>n. select w (es, n) = Some e))"
proof -
  have alive: "aliveLoop env chans (r # rs) u =
      Returns None (Some ErrDying) (snd (aliveArm env chans u)) rs"
    if "select (aliveWaits (fst (aliveArm env chans u))) r = Some TombDying"
    using that by (cases "aliveArm env chans u") simp
  have picked: "w e \<and> e \<in> set es" if "select w (es, n) = Some e"
    using select_Some [OF that] by simp
  show ?thesis
    using alive picked select_any [of w e es]
    by (auto simp: perform_def modeContext_def deferCall_def deferStopHooks_def
        split: option.splits)
qed

theorem cancellation_is_waited_and_fatal_witness:
  "select conflictedWaits ([TombDying], 0) = Some TombDying
   \<and> conflictedSelect (Some ''cs:foo-3'') sampleEnv [([TombDying], 0)] sampleUniter =
       Returns None (Some ErrDying) sampleUniter []
   \<and> select conflictedWaits ([TombDying, ResolvedEvent ResolvedNoHooks], 1) =
       Some (ResolvedEvent ResolvedNoHooks)"
proof -
  have sel: "select conflictedWaits ([TombDying], 0) = Some TombDying"
    by (simp add: select_def)
  have other: "select conflictedWaits ([TombDying, ResolvedEvent ResolvedNoHooks], 1) =
      Some (ResolvedEvent ResolvedNoHooks)"
    by (simp add: select_def)
  from cancellation_is_waited_and_fatal
         [where r = "([TombDying], 0)" and curl = "Some ''cs:foo-3''" and env = sampleEnv
            and rs = "[]" and u = sampleUniter] sel
  have "conflictedSelect (Some ''cs:foo-3'') sampleEnv [([TombDying], 0)] sampleUniter =
      Returns None (Some ErrDying) sampleUniter []"
    by blast
  with sel other show ?thesis by simp
qed

text \<open>
  C9 as stated fails: the cancellation does not come before the other cases. In the
  Conflicted mode, with the cancellation and a resolved event both ready, the select may
  take the resolved event: the resolved-upgrade operation is run and the mode returns
  ModeContinue, not the dying error.
\<close>

theorem cancellation_priority_counterexample:
  "conflicted (Some ''cs:foo-3'') sampleEnv
     [([TombDying, ResolvedEvent ResolvedNoHooks], 1)] sampleUniter
   = Returns (Some Mode_Continue) None
       (sampleUniter\<lparr>calls := [SetAgentStatus StatusError ''upgrade failed'' [],
          WantResolvedEvent, WantUpgradeEvent True,
          RunOperation (NewResolvedUpgradeOp (Some ''cs:foo-3''))]\<rparr>) []"
  by (simp add: conflicted_def sample_defs step_defs)

subsection \<open>Without leader election\<close>






end
